theory Spec2Isabelle
  imports Complex_Main "HOL-Library.Sublist"
begin

section \<open>JavaScript strings and errors\<close>

text \<open>
  A JavaScript string is modelled as a \<^typ>\<open>string\<close>: a list of code units, here the code
  units below 256.  A thrown \<open>Error\<close> object is a value of type \<open>js_error\<close>; a function that
  may throw returns \<open>js_error + 'a\<close>, with \<open>Inl\<close> for the throw.
\<close>

datatype js_error = Error (message: string)

definition is_js_space :: "char \<Rightarrow> bool" where
  \<comment> \<open>the white space and line terminators that \<open>String.prototype.trim\<close> removes, below 256:
      TAB, LF, VT, FF, CR, SPACE, NBSP\<close>
  "is_js_space c = ((of_char c :: nat) \<in> {9, 10, 11, 12, 13, 32, 160})"

definition trim :: "string \<Rightarrow> string" where
  "trim s = rev (dropWhile is_js_space (rev (dropWhile is_js_space s)))"

definition falsy :: "string \<Rightarrow> bool" where
  \<comment> \<open>\<open>!s\<close> for a string that is present: only the empty string is falsy\<close>
  "falsy s = (s = [])"

fun joinWith :: "string \<Rightarrow> string list \<Rightarrow> string" where
  "joinWith sep [] = []"
| "joinWith sep [x] = x"
| "joinWith sep (x # y # ys) = x @ sep @ joinWith sep (y # ys)"

section \<open>lib/storage: the Identifier Sanitizer\<close>

definition allowed_char :: "char \<Rightarrow> bool" where
  \<comment> \<open>the complement of the character class \<open>[^a-zA-Z0-9._-]\<close>\<close>
  "allowed_char c =
     (let n = (of_char c :: nat) in
        (97 \<le> n \<and> n \<le> 122) \<or> (65 \<le> n \<and> n \<le> 90) \<or> (48 \<le> n \<and> n \<le> 57)
        \<or> c = CHR ''.'' \<or> c = CHR ''_'' \<or> c = CHR ''-'')"

definition strip_disallowed :: "string \<Rightarrow> string" where
  \<comment> \<open>\<open>agentId.replace(/[^a-zA-Z0-9._-]/g, '')\<close>\<close>
  "strip_disallowed agentId = filter allowed_char agentId"

definition sanitizeAgentId :: "string \<Rightarrow> js_error + string" where
  "sanitizeAgentId agentId =
     (if falsy agentId \<or> length (trim agentId) = 0
      then Inl (Error ''agent_id cannot be empty'')
      else let sanitized = strip_disallowed agentId in
        if length sanitized = 0
        then Inl (Error ''agent_id contains no valid characters (allowed: a-zA-Z0-9._-)'')
        else Inr sanitized)"

section \<open>The path module (POSIX)\<close>

text \<open>
  The tools call \<open>path.resolve\<close>, \<open>path.join\<close>, \<open>path.extname\<close> and \<open>path.dirname\<close> of the
  Node.js runtime.  They are lexical functions on strings; none of them reads the file
  system, so none of them follows a symbolic link.  They are modelled here in their POSIX
  variant.
\<close>

fun splitOn :: "char \<Rightarrow> string \<Rightarrow> string list" where
  "splitOn c [] = [[]]"
| "splitOn c (x # xs) =
     (if x = c then [] # splitOn c xs
      else (case splitOn c xs of [] \<Rightarrow> [[x]] | s # ss \<Rightarrow> (x # s) # ss))"

fun normalizeSegments :: "bool \<Rightarrow> string list \<Rightarrow> string list \<Rightarrow> string list" where
  "normalizeSegments allowAboveRoot res [] = res"
| "normalizeSegments allowAboveRoot res (s # ss) =
     (if s = [] \<or> s = ''.'' then normalizeSegments allowAboveRoot res ss
      else if s = ''..'' then
        (if res \<noteq> [] \<and> last res \<noteq> ''..''
         then normalizeSegments allowAboveRoot (butlast res) ss
         else if allowAboveRoot then normalizeSegments allowAboveRoot (res @ [''..'']) ss
         else normalizeSegments allowAboveRoot res ss)
      else normalizeSegments allowAboveRoot (res @ [s]) ss)"

definition normalizeString :: "string \<Rightarrow> bool \<Rightarrow> string" where
  "normalizeString path allowAboveRoot =
     joinWith ''/'' (normalizeSegments allowAboveRoot [] (splitOn (CHR ''/'') path))"

definition isAbsolute :: "string \<Rightarrow> bool" where
  "isAbsolute p = (case p of [] \<Rightarrow> False | c # _ \<Rightarrow> c = CHR ''/'')"

definition path_normalize :: "string \<Rightarrow> string" where
  "path_normalize p =
     (if p = [] then ''.''
      else let trailingSeparator = (last p = CHR ''/'');
               q = normalizeString p (\<not> isAbsolute p)
        in if q = [] then (if isAbsolute p then ''/'' else if trailingSeparator then ''./'' else ''.'')
           else (if isAbsolute p then ''/'' else []) @ q @ (if trailingSeparator then ''/'' else []))"

definition path_join :: "string \<Rightarrow> string \<Rightarrow> string" where
  "path_join a b =
     (let joined = joinWith ''/'' (filter (\<lambda>s. s \<noteq> []) [a, b])
      in if joined = [] then ''.'' else path_normalize joined)"

definition path_resolve :: "string \<Rightarrow> string \<Rightarrow> string" where
  \<comment> \<open>\<open>path.resolve(p)\<close> in a process whose working directory is the absolute path \<open>wd\<close>\<close>
  "path_resolve wd p =
     (let full = (if p = [] then wd @ ''/''
                  else if isAbsolute p then p @ ''/''
                  else wd @ ''/'' @ p @ ''/'')
      in CHR ''/'' # normalizeString full False)"

definition path_basename_part :: "string \<Rightarrow> string" where
  \<comment> \<open>the last path component, trailing separators ignored\<close>
  "path_basename_part p =
     rev (takeWhile (\<lambda>c. c \<noteq> CHR ''/'') (dropWhile (\<lambda>c. c = CHR ''/'') (rev p)))"

definition path_extname :: "string \<Rightarrow> string" where
  "path_extname p =
     (let b = path_basename_part p;
          e = takeWhile (\<lambda>c. c \<noteq> CHR ''.'') (rev b);
          pre = drop (Suc (length e)) (rev b)
      in if CHR ''.'' \<notin> set b \<or> pre = [] \<or> b = ''..'' then [] else CHR ''.'' # rev e)"

definition path_dirname :: "string \<Rightarrow> string" where
  "path_dirname p =
     (if p = [] then ''.''
      else let b = dropWhile (\<lambda>c. c \<noteq> CHR ''/'') (dropWhile (\<lambda>c. c = CHR ''/'') (rev (tl p)));
               end = length b
        in if b = [] then (if isAbsolute p then ''/'' else ''.'')
           else if isAbsolute p \<and> end = 1 then ''//''
           else take end p)"

definition toLowerCase :: "string \<Rightarrow> string" where
  "toLowerCase s =
     map (\<lambda>c. let n = (of_char c :: nat) in
            if (65 \<le> n \<and> n \<le> 90) \<or> (192 \<le> n \<and> n \<le> 222 \<and> n \<noteq> 215)
            then char_of (n + 32) else c) s"

section \<open>The process environment\<close>

datatype fs_op =
    OpMkdir string | OpReadFile string | OpStat string | OpWriteFile string
  | OpOpen string | OpWrite string | OpFsync string | OpClose string

record env =
  cwd :: string                    \<comment> \<open>\<open>process.cwd()\<close>, an absolute path\<close>
  MARKMAP_STORAGE_ROOT :: string   \<comment> \<open>the exported constant of lib/storage\<close>
  now :: nat                       \<comment> \<open>\<open>Date.now()\<close>\<close>
  fs_fails :: "fs_op \<Rightarrow> bool"      \<comment> \<open>the file-system calls that throw\<close>

section \<open>tools/renderFile: the Path Guard\<close>

definition validateFilePath :: "env \<Rightarrow> string \<Rightarrow> string option \<Rightarrow> bool" where
  "validateFilePath E filePath agentId =
     (let resolved = path_resolve (cwd E) filePath;
          cwd' = path_resolve (cwd E) (cwd E)
      in if prefix cwd' resolved then True
         else (case agentId of
                 None \<Rightarrow> False
               | Some a \<Rightarrow>
                   if falsy a then False
                   else let sanitized = strip_disallowed a in
                     if length sanitized > 0
                     then let agentDir =
                                path_resolve (cwd E) (path_join (MARKMAP_STORAGE_ROOT E) sanitized)
                          in (if prefix agentDir resolved then True else False)
                     else False))"


section \<open>The world: files, durability and external calls\<close>

text \<open>
  Effects are explicit: a \<open>world\<close> holds the file contents the process sees (keyed by
  resolved path), the set of paths whose present content has been flushed to stable storage,
  and the log of the calls made to external collaborators, oldest first.  An effectful
  function maps a world to a result (or a thrown error) and the world it leaves behind.
\<close>

record OutlineItem =
  item_text :: string
  item_level :: int

type_synonym js_options = "(string \<times> string) list"

datatype call =
    Fs fs_op
  | ParseMarkdown string
  | RenderToSVG string
  | ApplyCustomization string string
  | GetColorScheme string
  | OutlineToMarkdown "OutlineItem list"

record world =
  files :: "string \<rightharpoonup> string"
  durable :: "string set"
  calls :: "call list"

type_synonym 'a io = "world \<Rightarrow> (js_error + 'a) \<times> world"

definition return_io :: "'a \<Rightarrow> 'a io" where
  "return_io x w = (Inr x, w)"

definition bind_io :: "'a io \<Rightarrow> ('a \<Rightarrow> 'b io) \<Rightarrow> 'b io" where
  "bind_io m f w = (case m w of (Inl e, w') \<Rightarrow> (Inl e, w') | (Inr x, w') \<Rightarrow> f x w')"

definition try_finally :: "'a io \<Rightarrow> unit io \<Rightarrow> 'a io" where
  \<comment> \<open>\<open>try { body } finally { fin }\<close>: \<open>fin\<close> always runs; if it throws, its error wins\<close>
  "try_finally body fin w =
     (case body w of (r, w1) \<Rightarrow>
        (case fin w1 of (Inl e, w2) \<Rightarrow> (Inl e, w2) | (Inr _, w2) \<Rightarrow> (r, w2)))"

definition call_ext :: "call \<Rightarrow> (js_error + 'a) \<Rightarrow> 'a io" where
  \<comment> \<open>a call to an external collaborator: logged, then its outcome\<close>
  "call_ext c r w = (r, w\<lparr>calls := calls w @ [c]\<rparr>)"

definition byteLength :: "string \<Rightarrow> nat" where
  \<comment> \<open>size in bytes of the UTF-8 encoding\<close>
  "byteLength s = sum_list (map (\<lambda>c. if (of_char c :: nat) < 128 then 1 else 2) s)"

definition fs_call :: "env \<Rightarrow> fs_op \<Rightarrow> (world \<Rightarrow> world) \<Rightarrow> unit io" where
  "fs_call E op effect w =
     (let w1 = w\<lparr>calls := calls w @ [Fs op]\<rparr>
      in if fs_fails E op then (Inl (Error ''EIO: i/o error''), w1) else (Inr (), effect w1))"

definition fs_mkdir :: "env \<Rightarrow> string \<Rightarrow> unit io" where
  \<comment> \<open>\<open>fs.mkdir(p, { recursive: true })\<close>; directories are not tracked\<close>
  "fs_mkdir E p = fs_call E (OpMkdir p) (\<lambda>w. w)"

definition fs_writeFile :: "env \<Rightarrow> string \<Rightarrow> string \<Rightarrow> unit io" where
  \<comment> \<open>\<open>fs.writeFile(p, content, 'utf-8')\<close>: no flush\<close>
  "fs_writeFile E p content =
     fs_call E (OpWriteFile p)
       (\<lambda>w. w\<lparr>files := (files w)(path_resolve (cwd E) p \<mapsto> content),
              durable := durable w - {path_resolve (cwd E) p}\<rparr>)"

definition fs_readFile :: "env \<Rightarrow> string \<Rightarrow> string io" where
  "fs_readFile E p =
     bind_io (fs_call E (OpReadFile p) (\<lambda>w. w))
       (\<lambda>_ w. case files w (path_resolve (cwd E) p) of
                 None \<Rightarrow> (Inl (Error ''ENOENT: no such file or directory''), w)
               | Some content \<Rightarrow> (Inr content, w))"

definition fs_stat :: "env \<Rightarrow> string \<Rightarrow> nat io" where
  \<comment> \<open>\<open>fs.stat(p)\<close>, of which the tools read only \<open>size\<close>\<close>
  "fs_stat E p =
     bind_io (fs_call E (OpStat p) (\<lambda>w. w))
       (\<lambda>_ w. case files w (path_resolve (cwd E) p) of
                 None \<Rightarrow> (Inl (Error ''ENOENT: no such file or directory''), w)
               | Some content \<Rightarrow> (Inr (byteLength content), w))"

definition openSync :: "env \<Rightarrow> string \<Rightarrow> string io" where
  \<comment> \<open>\<open>openSync(p, 'w')\<close> creates or truncates; the descriptor is identified with the path\<close>
  "openSync E p =
     bind_io (fs_call E (OpOpen p)
                (\<lambda>w. w\<lparr>files := (files w)(path_resolve (cwd E) p \<mapsto> []),
                       durable := durable w - {path_resolve (cwd E) p}\<rparr>))
       (\<lambda>_. return_io p)"

definition writeSync :: "env \<Rightarrow> string \<Rightarrow> string \<Rightarrow> unit io" where
  "writeSync E fd content =
     fs_call E (OpWrite fd)
       (\<lambda>w. w\<lparr>files := (files w)(path_resolve (cwd E) fd \<mapsto> content),
              durable := durable w - {path_resolve (cwd E) fd}\<rparr>)"

definition fsyncSync :: "env \<Rightarrow> string \<Rightarrow> unit io" where
  "fsyncSync E fd =
     fs_call E (OpFsync fd) (\<lambda>w. w\<lparr>durable := insert (path_resolve (cwd E) fd) (durable w)\<rparr>)"

definition closeSync :: "env \<Rightarrow> string \<Rightarrow> unit io" where
  "closeSync E fd = fs_call E (OpClose fd) (\<lambda>w. w)"

section \<open>lib/storage: the Artifact Writer\<close>

definition digit_char :: "nat \<Rightarrow> char" where
  "digit_char d = ''0123456789'' ! d"

function show_nat :: "nat \<Rightarrow> string" where
  \<comment> \<open>the decimal digits of a number, as a template literal prints it\<close>
  "show_nat n =
     (if n < 10 then [digit_char n] else show_nat (n div 10) @ [digit_char (n mod 10)])"
  by pat_completeness auto
termination
  by (relation "measure (\<lambda>n. n)") auto

declare show_nat.simps [simp del]

record SavedFiles =
  svg :: string
  html :: string
  md :: string

record page_template =
  generateHtml :: "string \<Rightarrow> string \<Rightarrow> string"
    \<comment> \<open>the page template of lib/storage, a pure function of (content, title)\<close>
  title_of :: "string \<Rightarrow> nat \<Rightarrow> string"
    \<comment> \<open>the page title, built from the tool name and \<open>new Date(timestamp).toISOString()\<close>\<close>

text \<open>
  Two copies of lib/storage are at hand.  The one under \<open>markmap-mcp/src/lib\<close> writes each
  artifact with \<open>writeFileSync\<close> (open, write, fsync, close) and is the one tools/customize
  imports; the copy that comes with tools/renderFile and tools/fromOutline writes with
  \<open>fs.writeFile\<close> under \<open>Promise.all\<close>.  Both are modelled; the second carries the suffix
  \<open>_legacy\<close>.  The lines written to \<open>console.error\<close> are left out.
\<close>

definition writeFileSync :: "env \<Rightarrow> string \<Rightarrow> string \<Rightarrow> unit io" where
  \<comment> \<open>lib/storage.ts, lines 45-53\<close>
  "writeFileSync E filePath content =
     bind_io (openSync E filePath)
       (\<lambda>fd. try_finally
                (bind_io (writeSync E fd content) (\<lambda>_. fsyncSync E fd))
                (closeSync E fd))"

definition ensureAgentDir :: "env \<Rightarrow> string \<Rightarrow> string io" where
  "ensureAgentDir E agentId =
     (case sanitizeAgentId agentId of
        Inl e \<Rightarrow> (\<lambda>w. (Inl e, w))
      | Inr sanitized \<Rightarrow>
          (let agentDir = path_join (MARKMAP_STORAGE_ROOT E) sanitized
           in bind_io (fs_mkdir E agentDir) (\<lambda>_. return_io agentDir)))"

definition saveOutputs ::
  "page_template \<Rightarrow> env \<Rightarrow> string \<Rightarrow> string \<Rightarrow> string \<Rightarrow> string \<Rightarrow> SavedFiles io" where
  \<comment> \<open>lib/storage.ts, lines 142-172: three \<open>writeFileSync\<close> in sequence\<close>
  "saveOutputs T E agentId toolName svgContent markdownContent =
     bind_io (ensureAgentDir E agentId) (\<lambda>agentDir.
       let timestamp = now E;
           baseName = toolName @ ''_'' @ show_nat timestamp;
           svgPath = path_join agentDir (baseName @ ''.svg'');
           htmlPath = path_join agentDir (baseName @ ''.html'');
           mdPath = path_join agentDir (baseName @ ''.md'');
           title = title_of T toolName timestamp;
           htmlContent = generateHtml T markdownContent title
       in bind_io (writeFileSync E svgPath svgContent) (\<lambda>_.
          bind_io (writeFileSync E htmlPath htmlContent) (\<lambda>_.
          bind_io (writeFileSync E mdPath markdownContent) (\<lambda>_.
          return_io \<lparr>svg = svgPath, html = htmlPath, md = mdPath\<rparr>))))"

definition promise_all3 :: "unit io \<Rightarrow> unit io \<Rightarrow> unit io \<Rightarrow> unit io" where
  \<comment> \<open>\<open>Promise.all\<close> of three writes: all three are started whatever the others do, and
      the first rejection is the one reported\<close>
  "promise_all3 a b c w =
     (case a w of (ra, w1) \<Rightarrow> case b w1 of (rb, w2) \<Rightarrow> case c w2 of (rc, w3) \<Rightarrow>
        (case ra of Inl e \<Rightarrow> (Inl e, w3)
         | Inr _ \<Rightarrow> (case rb of Inl e \<Rightarrow> (Inl e, w3) | Inr _ \<Rightarrow> (rc, w3))))"

definition saveOutputs_legacy ::
  "page_template \<Rightarrow> env \<Rightarrow> string \<Rightarrow> string \<Rightarrow> string \<Rightarrow> string \<Rightarrow> SavedFiles io" where
  \<comment> \<open>the copy of lib/storage that precedes renderFile and fromOutline (lines 142-166):
      three \<open>fs.writeFile\<close> under \<open>Promise.all\<close>\<close>
  "saveOutputs_legacy T E agentId toolName svgContent markdownContent =
     bind_io (ensureAgentDir E agentId) (\<lambda>agentDir.
       let timestamp = now E;
           baseName = toolName @ ''_'' @ show_nat timestamp;
           svgPath = path_join agentDir (baseName @ ''.svg'');
           htmlPath = path_join agentDir (baseName @ ''.html'');
           mdPath = path_join agentDir (baseName @ ''.md'');
           title = title_of T toolName timestamp;
           htmlContent = generateHtml T svgContent title
       in bind_io (promise_all3 (fs_writeFile E svgPath svgContent)
                                (fs_writeFile E htmlPath htmlContent)
                                (fs_writeFile E mdPath markdownContent)) (\<lambda>_.
          return_io \<lparr>svg = svgPath, html = htmlPath, md = mdPath\<rparr>))"


record SavedStructureFiles =
  structure_md :: string
  structure_json :: string

definition saveStructureOutputs ::
  "env \<Rightarrow> string \<Rightarrow> string \<Rightarrow> string \<Rightarrow> string \<Rightarrow> SavedStructureFiles io" where
  \<comment> \<open>lib/storage.ts, lines 185-208; \<open>structureJson\<close> is
      \<open>JSON.stringify(structureData, null, 2)\<close>\<close>
  "saveStructureOutputs E agentId toolName markdownContent structureJson =
     bind_io (ensureAgentDir E agentId) (\<lambda>agentDir.
       let timestamp = now E;
           baseName = toolName @ ''_'' @ show_nat timestamp;
           mdPath = path_join agentDir (baseName @ ''.md'');
           jsonPath = path_join agentDir (baseName @ ''.json'')
       in bind_io (writeFileSync E mdPath markdownContent) (\<lambda>_.
          bind_io (writeFileSync E jsonPath structureJson) (\<lambda>_.
          return_io \<lparr>structure_md = mdPath, structure_json = jsonPath\<rparr>)))"

definition promise_all2 :: "unit io \<Rightarrow> unit io \<Rightarrow> unit io" where
  "promise_all2 a b w =
     (case a w of (ra, w1) \<Rightarrow> case b w1 of (rb, w2) \<Rightarrow>
        (case ra of Inl e \<Rightarrow> (Inl e, w2) | Inr _ \<Rightarrow> (rb, w2)))"

definition saveStructureOutputs_legacy ::
  "env \<Rightarrow> string \<Rightarrow> string \<Rightarrow> string \<Rightarrow> string \<Rightarrow> SavedStructureFiles io" where
  \<comment> \<open>the copy that precedes renderFile and fromOutline (lines 178-197)\<close>
  "saveStructureOutputs_legacy E agentId toolName markdownContent structureJson =
     bind_io (ensureAgentDir E agentId) (\<lambda>agentDir.
       let timestamp = now E;
           baseName = toolName @ ''_'' @ show_nat timestamp;
           mdPath = path_join agentDir (baseName @ ''.md'');
           jsonPath = path_join agentDir (baseName @ ''.json'')
       in bind_io (promise_all2 (fs_writeFile E mdPath markdownContent)
                                (fs_writeFile E jsonPath structureJson)) (\<lambda>_.
          return_io \<lparr>structure_md = mdPath, structure_json = jsonPath\<rparr>))"

section \<open>The external collaborators of the tools\<close>

text \<open>
  \<open>MarkmapHandler\<close> (lib/markmap-handler) and the helpers of utils/markdown-parser are not
  part of the sources at hand; the tools are modelled for every behaviour they may have,
  including a throw.  \<open>'r\<close> is the type of the parsed tree; \<open>parseMarkdown\<close> yields the
  tree and the \<open>features\<close> object, of which only the keys are read.
\<close>

record 'r handler =
  parseMarkdown :: "string \<Rightarrow> js_error + ('r \<times> string list option)"
  renderToSVG :: "string \<Rightarrow> js_options option \<Rightarrow> js_error + string"
  applyCustomization ::
    "string \<Rightarrow> string \<Rightarrow> string list option \<Rightarrow> js_options option \<Rightarrow> js_error + string"
  getColorScheme :: "string \<Rightarrow> js_error + string list"
  countNodes :: "'r \<Rightarrow> js_error + nat"
  calculateDepth :: "'r \<Rightarrow> js_error + nat"
  outlineToMarkdown :: "OutlineItem list \<Rightarrow> js_error + string"

definition lift_io :: "(js_error + 'a) \<Rightarrow> 'a io" where
  "lift_io r w = (r, w)"

datatype 'o tool_result =
    ToolResponse string 'o      \<comment> \<open>\<open>content[0].text\<close> and \<open>structuredContent\<close>\<close>
  | ToolError string string     \<comment> \<open>\<open>content[0].text\<close> and \<open>errorType\<close>, with \<open>isError: true\<close>\<close>

fun errorType :: "'o tool_result \<Rightarrow> string option" where
  "errorType (ToolResponse t out) = None"
| "errorType (ToolError t k) = Some k"

fun structuredContent :: "'o tool_result \<Rightarrow> 'o option" where
  "structuredContent (ToolResponse t out) = Some out"
| "structuredContent (ToolError t k) = None"

definition catch_all :: "('o tool_result) io \<Rightarrow> world \<Rightarrow> 'o tool_result \<times> world" where
  \<comment> \<open>the outer \<open>try { ... } catch (error)\<close> of every tool\<close>
  "catch_all body w =
     (case body w of
        (Inl error, w') \<Rightarrow> (ToolError (''Error: '' @ message error) ''RenderError'', w')
      | (Inr r, w') \<Rightarrow> (r, w'))"

definition quoted :: "string \<Rightarrow> string" where
  "quoted s = [CHR 0x27] @ s @ [CHR 0x27]"

section \<open>tools/customize\<close>

record CustomizeInput =
  c_agent_id :: string
  c_markdown_content :: string
  c_theme :: "string option"
  c_color_scheme :: "string list option"
  c_options :: "js_options option"

record CustomizationSummary =
  cs_theme :: string
  custom_colors :: bool
  custom_options :: "string list"

record CustomizeOutput =
  c_svg_content :: string
  theme_applied :: string
  colors_used :: "string list"
  c_node_count :: nat
  customization_summary :: CustomizationSummary
  c_saved_files :: SavedFiles

definition validThemes :: "string list" where
  "validThemes = [''default'', ''dark'', ''colorful'', ''minimal'']"

definition is_hex_digit :: "char \<Rightarrow> bool" where
  "is_hex_digit c =
     (let n = (of_char c :: nat) in
        (48 \<le> n \<and> n \<le> 57) \<or> (65 \<le> n \<and> n \<le> 70) \<or> (97 \<le> n \<and> n \<le> 102))"

definition hexColorRegex_test :: "string \<Rightarrow> bool" where
  \<comment> \<open>\<open>/^#[0-9A-Fa-f]{6}$/.test(s)\<close>\<close>
  "hexColorRegex_test s =
     (case s of [] \<Rightarrow> False
      | c # rest \<Rightarrow> c = CHR ''#'' \<and> length rest = 6 \<and> list_all is_hex_digit rest)"

fun firstInvalidColor :: "nat \<Rightarrow> string list \<Rightarrow> (nat \<times> string) option" where
  \<comment> \<open>the loop over \<open>input.color_scheme\<close>, from index \<open>i\<close>: the first entry that fails\<close>
  "firstInvalidColor i [] = None"
| "firstInvalidColor i (c # cs) =
     (if \<not> hexColorRegex_test c then Some (i, c) else firstInvalidColor (i + 1) cs)"

definition theme_supplied :: "string option \<Rightarrow> bool" where
  \<comment> \<open>truthiness of \<open>input.theme\<close>: present and not the empty string\<close>
  "theme_supplied t = (case t of None \<Rightarrow> False | Some s \<Rightarrow> \<not> falsy s)"

definition customize_body ::
  "'r handler \<Rightarrow> page_template \<Rightarrow> env \<Rightarrow> CustomizeInput \<Rightarrow> (CustomizeOutput tool_result) io" where
  \<comment> \<open>customize.ts, lines 80-141\<close>
  "customize_body H T E input =
     (let theme = (if theme_supplied (c_theme input) then the (c_theme input) else ''default'')
      in
      bind_io (call_ext (ApplyCustomization (c_markdown_content input) theme)
                 (applyCustomization H (c_markdown_content input) theme
                    (c_color_scheme input) (c_options input))) (\<lambda>svg_content.
      bind_io (call_ext (ParseMarkdown (c_markdown_content input))
                 (parseMarkdown H (c_markdown_content input))) (\<lambda>(root, features).
      bind_io (lift_io (countNodes H root)) (\<lambda>node_count.
      bind_io (case c_color_scheme input of
                 Some cs \<Rightarrow> return_io cs
               | None \<Rightarrow> call_ext (GetColorScheme theme) (getColorScheme H theme)) (\<lambda>colors.
      let customOptions = (case c_options input of None \<Rightarrow> [] | Some opts \<Rightarrow> map fst opts)
      in
      bind_io (saveOutputs T E (c_agent_id input) ''customize'' svg_content
                 (c_markdown_content input)) (\<lambda>saved_files.
      let output = \<lparr>c_svg_content = svg_content, theme_applied = theme, colors_used = colors,
                     c_node_count = node_count,
                     customization_summary =
                       \<lparr>cs_theme = theme, custom_colors = (c_color_scheme input \<noteq> None),
                        custom_options = customOptions\<rparr>,
                     c_saved_files = saved_files\<rparr>;
          customizations =
            (if theme \<noteq> ''default'' then [''theme: '' @ theme] else []) @
            (case c_color_scheme input of
               None \<Rightarrow> []
             | Some cs \<Rightarrow> [''custom colors ('' @ show_nat (length cs) @ '')'']) @
            (if length customOptions > 0
             then [''custom options ('' @ show_nat (length customOptions) @ '')''] else []);
          msg =
            (if length customizations > 0
             then ''Successfully generated customized mindmap with '' @ show_nat node_count @
                  '' nodes. Applied: '' @ joinWith '', '' customizations @
                  ''. Files saved to '' @ svg saved_files
             else ''Successfully generated mindmap with '' @ show_nat node_count @
                  '' nodes using default theme. Files saved to '' @ svg saved_files)
      in return_io (ToolResponse msg output)))))))"

definition customizeTool ::
  "'r handler \<Rightarrow> page_template \<Rightarrow> env \<Rightarrow> CustomizeInput \<Rightarrow> world
     \<Rightarrow> CustomizeOutput tool_result \<times> world" where
  "customizeTool H T E input w =
     (case sanitizeAgentId (c_agent_id input) of
        Inl error \<Rightarrow> (ToolError (''Error: '' @ message error) ''ValidationError'', w)
      | Inr _ \<Rightarrow>
          if falsy (c_markdown_content input) \<or> length (trim (c_markdown_content input)) = 0
          then (ToolError ''Error: Markdown content cannot be empty'' ''ValidationError'', w)
          else if theme_supplied (c_theme input) \<and> the (c_theme input) \<notin> set validThemes
          then (ToolError (''Error: Invalid theme '' @ quoted (the (c_theme input)) @
                           ''. Valid themes: '' @ joinWith '', '' validThemes)
                  ''ValidationError'', w)
          else (case (case c_color_scheme input of
                        None \<Rightarrow> None
                      | Some cs \<Rightarrow> firstInvalidColor 0 cs) of
                  Some (i, c) \<Rightarrow>
                    (ToolError (''Error: Invalid hex color at index '' @ show_nat i @ '': '' @
                                quoted c @ ''. Use format #RRGGBB'')
                       ''ValidationError'', w)
                | None \<Rightarrow> catch_all (customize_body H T E input) w))"


section \<open>tools/renderFile\<close>

record RenderFileInput =
  rf_agent_id :: string
  rf_file_path :: string
  rf_save_output :: bool
  rf_output_path :: "string option"
  rf_options :: "js_options option"

record RenderFileOutput =
  rf_svg_content :: string
  file_path :: string
  saved_path :: "string option"
  rf_node_count :: nat
  rf_depth :: nat
  rf_features_used :: "string list"
  file_size_kb :: rat
  rf_saved_files :: SavedFiles

definition object_keys :: "string list option \<Rightarrow> string list" where
  \<comment> \<open>\<open>Object.keys(features || {})\<close>\<close>
  "object_keys features = (case features of None \<Rightarrow> [] | Some ks \<Rightarrow> ks)"

definition two_digits :: "nat \<Rightarrow> string" where
  "two_digits k = [digit_char (k div 10 mod 10), digit_char (k mod 10)]"

definition toFixed2_MB :: "nat \<Rightarrow> string" where
  \<comment> \<open>\<open>(fileStats.size / 1024 / 1024).toFixed(2)\<close>: the hundredths nearest to the exact quotient\<close>
  "toFixed2_MB fileSize =
     (let k = (fileSize * 200 + 1048576) div 2097152
      in show_nat (k div 100) @ ''.'' @ two_digits (k mod 100))"

definition round_kb :: "nat \<Rightarrow> rat" where
  \<comment> \<open>\<open>Math.round(fileStats.size / 1024 * 100) / 100\<close>\<close>
  "round_kb fileSize = of_nat ((fileSize * 200 + 1024) div 2048) / 100"

definition output_path_given :: "RenderFileInput \<Rightarrow> bool" where
  \<comment> \<open>truthiness of \<open>input.save_output && input.output_path\<close>\<close>
  "output_path_given input =
     (rf_save_output input \<and>
      (case rf_output_path input of None \<Rightarrow> False | Some p \<Rightarrow> \<not> falsy p))"

definition legacy_save ::
  "env \<Rightarrow> RenderFileInput \<Rightarrow> string \<Rightarrow> world
     \<Rightarrow> (RenderFileOutput tool_result + string option) \<times> world" where
  \<comment> \<open>lines 354-387: \<open>Inl\<close> is an early return of the tool, \<open>Inr\<close> the value of \<open>saved_path\<close>\<close>
  "legacy_save E input svg_content w =
     (if output_path_given input then
        (let out = the (rf_output_path input) in
         if \<not> validateFilePath E out (Some (rf_agent_id input))
         then (Inl (ToolError
                 ''Error: Output path must be within the current working directory or agent storage directory''
                 ''ValidationError''), w)
         else (case bind_io (fs_mkdir E (path_dirname out))
                      (\<lambda>_. fs_writeFile E out svg_content) w of
                 (Inl error, w1) \<Rightarrow>
                   (Inl (ToolError (''Error saving file: '' @ message error) ''FileSystemError''), w1)
               | (Inr _, w1) \<Rightarrow> (Inr (Some out), w1)))
      else (Inr None, w))"

definition renderFile_body ::
  "'r handler \<Rightarrow> page_template \<Rightarrow> env \<Rightarrow> RenderFileInput \<Rightarrow> string \<Rightarrow> nat
     \<Rightarrow> (RenderFileOutput tool_result) io" where
  \<comment> \<open>lines 343-414\<close>
  "renderFile_body H T E input markdown_content fileSize =
     bind_io (call_ext (ParseMarkdown markdown_content)
                (parseMarkdown H markdown_content)) (\<lambda>(root, features).
     bind_io (lift_io (countNodes H root)) (\<lambda>nodeCount.
     bind_io (lift_io (calculateDepth H root)) (\<lambda>depth.
     bind_io (call_ext (RenderToSVG markdown_content)
                (renderToSVG H markdown_content (rf_options input))) (\<lambda>svg_content.
     (\<lambda>w. case legacy_save E input svg_content w of
        (Inl early, w1) \<Rightarrow> (Inr early, w1)
      | (Inr savedPath, w1) \<Rightarrow>
          bind_io (saveOutputs_legacy T E (rf_agent_id input) ''renderFile'' svg_content
                     markdown_content) (\<lambda>saved_files.
          let output = \<lparr>rf_svg_content = svg_content, file_path = rf_file_path input,
                         saved_path = savedPath, rf_node_count = nodeCount, rf_depth = depth,
                         rf_features_used = object_keys features,
                         file_size_kb = round_kb fileSize, rf_saved_files = saved_files\<rparr>;
              msg = (case savedPath of
                       Some sp \<Rightarrow>
                         ''Successfully rendered '' @ rf_file_path input @ '' ('' @
                         show_nat nodeCount @ '' nodes) and saved to '' @ sp @
                         ''. Auto-saved to '' @ svg saved_files
                     | None \<Rightarrow>
                         ''Successfully rendered '' @ rf_file_path input @ '' with '' @
                         show_nat nodeCount @ '' nodes. Files saved to '' @ svg saved_files)
          in return_io (ToolResponse msg output)) w1)))))"

definition renderFileTool ::
  "'r handler \<Rightarrow> page_template \<Rightarrow> env \<Rightarrow> RenderFileInput \<Rightarrow> world
     \<Rightarrow> RenderFileOutput tool_result \<times> world" where
  "renderFileTool H T E input w =
     (case sanitizeAgentId (rf_agent_id input) of
        Inl error \<Rightarrow> (ToolError (''Error: '' @ message error) ''ValidationError'', w)
      | Inr _ \<Rightarrow>
          if falsy (rf_file_path input) \<or> length (trim (rf_file_path input)) = 0
          then (ToolError ''Error: File path cannot be empty'' ''ValidationError'', w)
          else let ext = toLowerCase (path_extname (rf_file_path input)) in
          if ext \<noteq> ''.md'' \<and> ext \<noteq> ''.markdown''
          then (ToolError (''Error: Invalid file extension '' @ quoted ext @
                           ''. Only .md and .markdown files are supported'')
                  ''ValidationError'', w)
          else if \<not> validateFilePath E (rf_file_path input) (Some (rf_agent_id input))
          then (ToolError
                  ''Error: File path must be within the current working directory or agent storage directory''
                  ''ValidationError'', w)
          else (case bind_io (fs_readFile E (rf_file_path input)) (\<lambda>markdown_content.
                     bind_io (fs_stat E (rf_file_path input)) (\<lambda>fileSize.
                     return_io (markdown_content, fileSize))) w of
                  (Inl error, w1) \<Rightarrow>
                    (ToolError (''File Error: '' @ message error) ''FileSystemError'', w1)
                | (Inr (markdown_content, fileSize), w1) \<Rightarrow>
                    if fileSize > 5 * 1024 * 1024
                    then (ToolError (''Error: File too large ('' @ toFixed2_MB fileSize @
                                     ''MB). Maximum size is 5MB'') ''ValidationError'', w1)
                    else catch_all (renderFile_body H T E input markdown_content fileSize) w1))"

section \<open>tools/fromOutline\<close>

record FromOutlineInput =
  fo_agent_id :: string
  fo_outline_items :: "OutlineItem list"
  fo_options :: "js_options option"

record FromOutlineOutput =
  fo_svg_content :: string
  markdown_generated :: string
  fo_node_count :: nat
  fo_depth :: nat
  fo_features_used :: "string list"
  fo_saved_files :: SavedFiles

definition item_text_empty :: "OutlineItem \<Rightarrow> bool" where
  \<comment> \<open>\<open>!item.text || item.text.trim().length === 0\<close>\<close>
  "item_text_empty item = (falsy (item_text item) \<or> length (trim (item_text item)) = 0)"

definition item_level_invalid :: "OutlineItem \<Rightarrow> bool" where
  \<comment> \<open>\<open>!item.level || item.level < 1 || item.level > 6\<close>\<close>
  "item_level_invalid item = (item_level item = 0 \<or> item_level item < 1 \<or> item_level item > 6)"

fun firstInvalidItem :: "nat \<Rightarrow> OutlineItem list \<Rightarrow> string option" where
  \<comment> \<open>the loop over \<open>input.outline_items\<close>, from index \<open>i\<close>: the message of the first early
      return, if any\<close>
  "firstInvalidItem i [] = None"
| "firstInvalidItem i (item # rest) =
     (if item_text_empty item
      then Some (''Error: Outline item '' @ show_nat (i + 1) @ '' has empty text'')
      else if item_level_invalid item
      then Some (''Error: Outline item '' @ show_nat (i + 1) @
                 '' has invalid level (must be 1-6)'')
      else firstInvalidItem (i + 1) rest)"

definition fromOutline_body ::
  "'r handler \<Rightarrow> page_template \<Rightarrow> env \<Rightarrow> FromOutlineInput \<Rightarrow> (FromOutlineOutput tool_result) io" where
  \<comment> \<open>lines 501-537\<close>
  "fromOutline_body H T E input =
     bind_io (call_ext (OutlineToMarkdown (fo_outline_items input))
                (outlineToMarkdown H (fo_outline_items input))) (\<lambda>markdownGenerated.
     bind_io (call_ext (ParseMarkdown markdownGenerated)
                (parseMarkdown H markdownGenerated)) (\<lambda>(root, features).
     bind_io (lift_io (countNodes H root)) (\<lambda>nodeCount.
     bind_io (lift_io (calculateDepth H root)) (\<lambda>depth.
     bind_io (call_ext (RenderToSVG markdownGenerated)
                (renderToSVG H markdownGenerated (fo_options input))) (\<lambda>svg_content.
     bind_io (saveOutputs_legacy T E (fo_agent_id input) ''fromOutline'' svg_content
                markdownGenerated) (\<lambda>saved_files.
     let output = \<lparr>fo_svg_content = svg_content, markdown_generated = markdownGenerated,
                    fo_node_count = nodeCount, fo_depth = depth,
                    fo_features_used = object_keys features, fo_saved_files = saved_files\<rparr>
     in return_io (ToolResponse
          (''Successfully generated mindmap from '' @ show_nat (length (fo_outline_items input)) @
           '' outline items ('' @ show_nat nodeCount @ '' nodes total). Files saved to '' @
           svg saved_files) output)))))))"

definition fromOutlineTool ::
  "'r handler \<Rightarrow> page_template \<Rightarrow> env \<Rightarrow> FromOutlineInput \<Rightarrow> world
     \<Rightarrow> FromOutlineOutput tool_result \<times> world" where
  "fromOutlineTool H T E input w =
     (case sanitizeAgentId (fo_agent_id input) of
        Inl error \<Rightarrow> (ToolError (''Error: '' @ message error) ''ValidationError'', w)
      | Inr _ \<Rightarrow>
          if length (fo_outline_items input) = 0
          then (ToolError ''Error: Outline items cannot be empty'' ''ValidationError'', w)
          else (case firstInvalidItem 0 (fo_outline_items input) of
                  Some msg \<Rightarrow> (ToolError msg ''ValidationError'', w)
                | None \<Rightarrow> catch_all (fromOutline_body H T E input) w))"


section \<open>The Path Guard as the specification words it\<close>





section \<open>A concrete environment\<close>

text \<open>
  An environment, a world and stand-ins for the external collaborators, on which the
  definitions above are evaluated.  The stand-in handler reports the node count and depth it
  is given, whatever the document.
\<close>

definition example_env :: env where
  "example_env =
     \<lparr>cwd = ''/srv/app'', MARKMAP_STORAGE_ROOT = ''/opt/mcp-servers/markmap_output'',
      now = 1739450400000, fs_fails = (\<lambda>_. False)\<rparr>"

definition example_template :: page_template where
  "example_template =
     \<lparr>generateHtml = (\<lambda>content title. ''<title>'' @ title @ ''</title>'' @ content),
      title_of = (\<lambda>toolName timestamp. ''Markmap '' @ toolName)\<rparr>"

definition example_handler :: "nat \<Rightarrow> nat \<Rightarrow> (nat \<times> nat) handler" where
  "example_handler n d =
     \<lparr>parseMarkdown = (\<lambda>md. Inr ((n, d), None)),
      renderToSVG = (\<lambda>md opts. Inr ''<svg></svg>''),
      applyCustomization = (\<lambda>md theme colors opts. Inr ''<svg></svg>''),
      getColorScheme = (\<lambda>theme. Inr [''#5e6ad2'', ''#26b5ce'']),
      countNodes = (\<lambda>root. Inr (fst root)),
      calculateDepth = (\<lambda>root. Inr (snd root)),
      outlineToMarkdown =
        (\<lambda>items. Inr (concat (map (\<lambda>item. replicate (nat (item_level item)) (CHR ''#'') @
                                            '' '' @ item_text item @ [CHR 0x0A]) items)))\<rparr>"

definition empty_world :: world where
  "empty_world = \<lparr>files = Map.empty, durable = {}, calls = []\<rparr>"


definition example_customize_input :: CustomizeInput where
  "example_customize_input =
     \<lparr>c_agent_id = ''agent-001'', c_markdown_content = ''# A'', c_theme = None,
      c_color_scheme = None, c_options = None\<rparr>"

definition example_renderFile_input :: RenderFileInput where
  "example_renderFile_input =
     \<lparr>rf_agent_id = ''agent-001'', rf_file_path = ''notes.md'', rf_save_output = True,
      rf_output_path = None, rf_options = None\<rparr>"

definition example_outline_input :: FromOutlineInput where
  "example_outline_input =
     \<lparr>fo_agent_id = ''agent-001'',
      fo_outline_items = [\<lparr>item_text = ''AI'', item_level = 1\<rparr>,
                          \<lparr>item_text = ''ML'', item_level = 2\<rparr>,
                          \<lparr>item_text = ''NLP'', item_level = 2\<rparr>],
      fo_options = None\<rparr>"

definition example_world :: world where
  \<comment> \<open>a world in which \<open>/srv/app/notes.md\<close> exists\<close>
  "example_world =
     \<lparr>files = [''/srv/app/notes.md'' \<mapsto> ''# AI''], durable = {''/srv/app/notes.md''},
      calls = []\<rparr>"

definition failing_env :: env where
  \<comment> \<open>as \<open>example_env\<close>, but opening the HTML artifact of customize fails\<close>
  "failing_env =
     example_env\<lparr>fs_fails :=
       (\<lambda>op. op = OpOpen
          ''/opt/mcp-servers/markmap_output/agent-001/customize_1739450400000.html'')\<rparr>"

section \<open>The Identifier Sanitizer: what it returns and when it fails\<close>

lemma space_not_allowed: "is_js_space c \<Longrightarrow> \<not> allowed_char c"
  by (auto simp: is_js_space_def allowed_char_def Let_def)

lemma trim_Nil_iff: "trim s = [] \<longleftrightarrow> (\<forall>c\<in>set s. is_js_space c)"
proof
  assume "trim s = []"
  then have a: "\<forall>c\<in>set (dropWhile is_js_space s). is_js_space c"
    by (simp add: trim_def)
  have "dropWhile is_js_space s = []"
  proof (rule ccontr)
    assume n: "dropWhile is_js_space s \<noteq> []"
    then have "\<not> is_js_space (hd (dropWhile is_js_space s))" by (rule hd_dropWhile)
    moreover have "hd (dropWhile is_js_space s) \<in> set (dropWhile is_js_space s)" using n by simp
    ultimately show False using a by blast
  qed
  then show "\<forall>c\<in>set s. is_js_space c" by simp
next
  assume "\<forall>c\<in>set s. is_js_space c"
  then show "trim s = []" by (auto simp: trim_def dest: set_dropWhileD)
qed

lemma trim_Nil_strip: "trim s = [] \<Longrightarrow> strip_disallowed s = []"
  by (auto simp: trim_Nil_iff strip_disallowed_def filter_empty_conv dest: space_not_allowed)

lemma sanitizeAgentId_eq:
  "sanitizeAgentId s = Inr r \<longleftrightarrow> (r = strip_disallowed s \<and> r \<noteq> [])"
  using trim_Nil_strip[of s]
  by (auto simp: sanitizeAgentId_def falsy_def Let_def strip_disallowed_def)

lemma allowed_char_alphabet:
  "allowed_char c \<longleftrightarrow>
   c \<in> set ''abcdefghijklmnopqrstuvwxyzABCDEFGHIJKLMNOPQRSTUVWXYZ0123456789._-''"
  by (cases c) (simp add: allowed_char_def Let_def)

lemma strip_symbols: "strip_disallowed ''@#$%'' = []"
  by (simp add: strip_disallowed_def allowed_char_def)

lemma tools_reject_bad_agent:
  "sanitizeAgentId a = Inl e \<Longrightarrow>
     customizeTool H T E (ci\<lparr>c_agent_id := a\<rparr>) w =
       (ToolError (''Error: '' @ message e) ''ValidationError'', w)"
  "sanitizeAgentId a = Inl e \<Longrightarrow>
     renderFileTool H T E (ri\<lparr>rf_agent_id := a\<rparr>) w =
       (ToolError (''Error: '' @ message e) ''ValidationError'', w)"
  "sanitizeAgentId a = Inl e \<Longrightarrow>
     fromOutlineTool H T E (fi\<lparr>fo_agent_id := a\<rparr>) w =
       (ToolError (''Error: '' @ message e) ''ValidationError'', w)"
  by (simp_all add: customizeTool_def renderFileTool_def fromOutlineTool_def)

text \<open>
  Claim C2.  Whenever something remains after stripping, \<open>sanitizeAgentId\<close> returns the input
  with exactly the characters outside letters (a-z, A-Z), digits, \<open>.\<close>, \<open>_\<close> and \<open>-\<close>
  deleted, the others kept in their order (a \<open>filter\<close>); a character is in the result if
  and only if it is in the input and in that alphabet; and on a non-empty input made of
  allowed characters only it is the identity.
\<close>

theorem sanitizeAgentId_strips:
  "(strip_disallowed s \<noteq> [] \<longrightarrow> sanitizeAgentId s = Inr (filter allowed_char s)) \<and>
   (\<forall>c. c \<in> set (filter allowed_char s) \<longleftrightarrow>
        c \<in> set s \<and>
        c \<in> set ''abcdefghijklmnopqrstuvwxyzABCDEFGHIJKLMNOPQRSTUVWXYZ0123456789._-'') \<and>
   (s \<noteq> [] \<and> (\<forall>c\<in>set s. allowed_char c) \<longrightarrow> sanitizeAgentId s = Inr s)"
proof (intro conjI impI allI)
  assume "strip_disallowed s \<noteq> []"
  then show "sanitizeAgentId s = Inr (filter allowed_char s)"
    by (simp add: sanitizeAgentId_eq strip_disallowed_def)
next
  fix c
  show "c \<in> set (filter allowed_char s) \<longleftrightarrow>
        c \<in> set s \<and>
        c \<in> set ''abcdefghijklmnopqrstuvwxyzABCDEFGHIJKLMNOPQRSTUVWXYZ0123456789._-''"
    using allowed_char_alphabet[of c] by simp
next
  assume a: "s \<noteq> [] \<and> (\<forall>c\<in>set s. allowed_char c)"
  then have "filter allowed_char s = s" by (simp add: filter_id_conv)
  with a show "sanitizeAgentId s = Inr s"
    by (simp add: sanitizeAgentId_eq strip_disallowed_def)
qed

theorem sanitizeAgentId_strips_witness:
  "sanitizeAgentId ''../etc'' = Inr ''..etc'' \<and> sanitizeAgentId ''agent-001'' = Inr ''agent-001''"
proof -
  have a: "strip_disallowed ''../etc'' = ''..etc''"
    by (simp add: strip_disallowed_def allowed_char_def)
  have b: "\<forall>c\<in>set ''agent-001''. allowed_char c"
    by (simp add: allowed_char_def)
  have c: "filter allowed_char ''../etc'' = ''..etc''"
    by (simp add: allowed_char_def)
  show ?thesis
    using sanitizeAgentId_strips[of "''../etc''"] sanitizeAgentId_strips[of "''agent-001''"] a b c
    by simp
qed

text \<open>
  Claim C3.  \<open>sanitizeAgentId\<close> throws exactly when the input is empty, is white space only,
  or keeps no character after stripping; otherwise it returns a non-empty string.  Each tool
  catches the throw and answers with the error type \<open>ValidationError\<close>.
\<close>

theorem sanitizeAgentId_fails_iff:
  "(isl (sanitizeAgentId s) \<longleftrightarrow> (s = [] \<or> trim s = [] \<or> strip_disallowed s = [])) \<and>
   (\<not> isl (sanitizeAgentId s) \<longrightarrow> (\<exists>r. sanitizeAgentId s = Inr r \<and> r \<noteq> [])) \<and>
   (isl (sanitizeAgentId s) \<longrightarrow>
      errorType (fst (customizeTool H T E (ci\<lparr>c_agent_id := s\<rparr>) w)) = Some ''ValidationError'' \<and>
      errorType (fst (renderFileTool H T E (ri\<lparr>rf_agent_id := s\<rparr>) w)) = Some ''ValidationError'' \<and>
      errorType (fst (fromOutlineTool H T E (fi\<lparr>fo_agent_id := s\<rparr>) w)) = Some ''ValidationError'')"
proof (intro conjI impI)
  show "isl (sanitizeAgentId s) \<longleftrightarrow> (s = [] \<or> trim s = [] \<or> strip_disallowed s = [])"
    by (auto simp: sanitizeAgentId_def falsy_def Let_def)
next
  assume "\<not> isl (sanitizeAgentId s)"
  then obtain r where r: "sanitizeAgentId s = Inr r" by (cases "sanitizeAgentId s") auto
  then have "r \<noteq> []" by (auto simp: sanitizeAgentId_eq)
  with r show "\<exists>r. sanitizeAgentId s = Inr r \<and> r \<noteq> []" by blast
next
  assume "isl (sanitizeAgentId s)"
  then obtain e where e: "sanitizeAgentId s = Inl e" by (cases "sanitizeAgentId s") auto
  show "errorType (fst (customizeTool H T E (ci\<lparr>c_agent_id := s\<rparr>) w)) = Some ''ValidationError''"
    by (simp add: tools_reject_bad_agent(1)[OF e])
  show "errorType (fst (renderFileTool H T E (ri\<lparr>rf_agent_id := s\<rparr>) w)) = Some ''ValidationError''"
    by (simp add: tools_reject_bad_agent(2)[OF e])
  show "errorType (fst (fromOutlineTool H T E (fi\<lparr>fo_agent_id := s\<rparr>) w)) = Some ''ValidationError''"
    by (simp add: tools_reject_bad_agent(3)[OF e])
qed

theorem sanitizeAgentId_fails_iff_witness:
  "isl (sanitizeAgentId ''@#$%'') \<and>
   errorType (fst (customizeTool (example_handler 3 2) example_template example_env
      (example_customize_input\<lparr>c_agent_id := ''@#$%''\<rparr>) empty_world)) = Some ''ValidationError'' \<and>
   errorType (fst (renderFileTool (example_handler 3 2) example_template example_env
      (example_renderFile_input\<lparr>rf_agent_id := ''@#$%''\<rparr>) empty_world)) = Some ''ValidationError'' \<and>
   errorType (fst (fromOutlineTool (example_handler 3 2) example_template example_env
      (example_outline_input\<lparr>fo_agent_id := ''@#$%''\<rparr>) empty_world)) = Some ''ValidationError'' \<and>
   \<not> isl (sanitizeAgentId ''agent-001'') \<and>
   (\<exists>r. sanitizeAgentId ''agent-001'' = Inr r \<and> r \<noteq> [])"
proof -
  have b: "''agent-001'' \<noteq> []" "trim ''agent-001'' \<noteq> []" "strip_disallowed ''agent-001'' \<noteq> []"
    by (simp_all add: trim_def is_js_space_def strip_disallowed_def allowed_char_def)
  note bad = sanitizeAgentId_fails_iff[of "''@#$%''" "example_handler 3 2" example_template
      example_env example_customize_input empty_world example_renderFile_input
      example_outline_input]
  note good = sanitizeAgentId_fails_iff[of "''agent-001''" "example_handler 3 2" example_template
      example_env example_customize_input empty_world example_renderFile_input
      example_outline_input]
  have c: "isl (sanitizeAgentId ''@#$%'')"
    using bad strip_symbols by blast
  have d: "\<not> isl (sanitizeAgentId ''agent-001'')"
    using good b by blast
  show ?thesis
    using bad good c d by blast
qed

section \<open>The Path Guard\<close>

lemma env_fields:
  "cwd example_env = ''/srv/app''"
  "MARKMAP_STORAGE_ROOT example_env = ''/opt/mcp-servers/markmap_output''"
  by (simp_all add: example_env_def)

lemma resolve_cwd: "path_resolve ''/srv/app'' ''/srv/app'' = ''/srv/app''"
  by code_simp


lemma sanitize_agent_001: "sanitizeAgentId ''agent-001'' = Inr ''agent-001''"
  by code_simp














section \<open>Evaluating the example environment\<close>

lemmas io_defs = bind_io_def return_io_def call_ext_def lift_io_def fs_call_def try_finally_def
  fs_mkdir_def fs_writeFile_def fs_readFile_def fs_stat_def openSync_def writeSync_def
  fsyncSync_def closeSync_def promise_all3_def promise_all2_def

lemma show_now: "show_nat 1739450400000 = ''1739450400000''"
  by (simp add: show_nat.simps digit_char_def)

lemma now_example: "now example_env = 1739450400000" "fs_fails example_env = (\<lambda>_. False)"
  by (simp_all add: example_env_def)

lemma failing_env_fields:
  "cwd failing_env = ''/srv/app''"
  "MARKMAP_STORAGE_ROOT failing_env = ''/opt/mcp-servers/markmap_output''"
  "now failing_env = 1739450400000"
  "fs_fails failing_env =
     (\<lambda>op. op = OpOpen ''/opt/mcp-servers/markmap_output/agent-001/customize_1739450400000.html'')"
  by (simp_all add: failing_env_def example_env_def)

lemma join_agent:
  "path_join ''/opt/mcp-servers/markmap_output'' ''agent-001'' =
   ''/opt/mcp-servers/markmap_output/agent-001''"
  by code_simp

lemma join_customize:
  "path_join ''/opt/mcp-servers/markmap_output/agent-001'' ''customize_1739450400000.svg'' =
   ''/opt/mcp-servers/markmap_output/agent-001/customize_1739450400000.svg''"
  "path_join ''/opt/mcp-servers/markmap_output/agent-001'' ''customize_1739450400000.html'' =
   ''/opt/mcp-servers/markmap_output/agent-001/customize_1739450400000.html''"
  "path_join ''/opt/mcp-servers/markmap_output/agent-001'' ''customize_1739450400000.md'' =
   ''/opt/mcp-servers/markmap_output/agent-001/customize_1739450400000.md''"
  by code_simp+

lemma resolve_customize:
  "path_resolve ''/srv/app''
     ''/opt/mcp-servers/markmap_output/agent-001/customize_1739450400000.svg'' =
   ''/opt/mcp-servers/markmap_output/agent-001/customize_1739450400000.svg''"
  "path_resolve ''/srv/app''
     ''/opt/mcp-servers/markmap_output/agent-001/customize_1739450400000.html'' =
   ''/opt/mcp-servers/markmap_output/agent-001/customize_1739450400000.html''"
  "path_resolve ''/srv/app''
     ''/opt/mcp-servers/markmap_output/agent-001/customize_1739450400000.md'' =
   ''/opt/mcp-servers/markmap_output/agent-001/customize_1739450400000.md''"
  by code_simp+

lemma join_renderFile:
  "path_join ''/opt/mcp-servers/markmap_output/agent-001'' ''renderFile_1739450400000.svg'' =
   ''/opt/mcp-servers/markmap_output/agent-001/renderFile_1739450400000.svg''"
  "path_join ''/opt/mcp-servers/markmap_output/agent-001'' ''renderFile_1739450400000.html'' =
   ''/opt/mcp-servers/markmap_output/agent-001/renderFile_1739450400000.html''"
  "path_join ''/opt/mcp-servers/markmap_output/agent-001'' ''renderFile_1739450400000.md'' =
   ''/opt/mcp-servers/markmap_output/agent-001/renderFile_1739450400000.md''"
  by code_simp+

lemma resolve_renderFile:
  "path_resolve ''/srv/app''
     ''/opt/mcp-servers/markmap_output/agent-001/renderFile_1739450400000.svg'' =
   ''/opt/mcp-servers/markmap_output/agent-001/renderFile_1739450400000.svg''"
  "path_resolve ''/srv/app''
     ''/opt/mcp-servers/markmap_output/agent-001/renderFile_1739450400000.html'' =
   ''/opt/mcp-servers/markmap_output/agent-001/renderFile_1739450400000.html''"
  "path_resolve ''/srv/app''
     ''/opt/mcp-servers/markmap_output/agent-001/renderFile_1739450400000.md'' =
   ''/opt/mcp-servers/markmap_output/agent-001/renderFile_1739450400000.md''"
  by code_simp+

lemma trim_example: "trim ''# A'' = ''# A''"
  by code_simp

lemma notes_md:
  "trim ''notes.md'' = ''notes.md''"
  "toLowerCase (path_extname ''notes.md'') = ''.md''"
  "path_resolve ''/srv/app'' ''notes.md'' = ''/srv/app/notes.md''"
  "byteLength ''# AI'' = 4"
  by code_simp+

lemma validate_notes: "validateFilePath example_env ''notes.md'' (Some ''agent-001'')"
  by (simp add: validateFilePath_def env_fields notes_md resolve_cwd)

lemmas customize_run_simps =
  customizeTool_def customize_body_def catch_all_def saveOutputs_def
  ensureAgentDir_def writeFileSync_def io_defs Let_def
  example_customize_input_def example_handler_def example_template_def empty_world_def
  sanitize_agent_001 trim_example falsy_def theme_supplied_def
  validThemes_def show_now join_agent join_customize resolve_customize

lemmas renderFile_run_simps =
  renderFileTool_def renderFile_body_def legacy_save_def output_path_given_def catch_all_def
  saveOutputs_legacy_def ensureAgentDir_def io_defs Let_def object_keys_def
  example_renderFile_input_def example_handler_def example_template_def example_world_def
  env_fields now_example sanitize_agent_001 notes_md validate_notes falsy_def show_now
  join_agent join_renderFile resolve_renderFile

lemma customizeTool_example_run:
  "errorType (fst (customizeTool (example_handler n d) example_template example_env
      example_customize_input empty_world)) = None"
  "map_option c_node_count (structuredContent (fst (customizeTool (example_handler n d)
      example_template example_env example_customize_input empty_world))) = Some n"
  by (simp_all add: customize_run_simps env_fields now_example)

lemma renderFileTool_example_run:
  "errorType (fst (renderFileTool (example_handler n d) example_template example_env
      example_renderFile_input example_world)) = None"
  "map_option rf_node_count (structuredContent (fst (renderFileTool (example_handler n d)
      example_template example_env example_renderFile_input example_world))) = Some n"
  "map_option rf_depth (structuredContent (fst (renderFileTool (example_handler n d)
      example_template example_env example_renderFile_input example_world))) = Some d"
  "calls (snd (renderFileTool (example_handler n d) example_template example_env
      example_renderFile_input example_world)) =
     [Fs (OpReadFile ''notes.md''), Fs (OpStat ''notes.md''), ParseMarkdown ''# AI'',
      RenderToSVG ''# AI'', Fs (OpMkdir ''/opt/mcp-servers/markmap_output/agent-001''),
      Fs (OpWriteFile ''/opt/mcp-servers/markmap_output/agent-001/renderFile_1739450400000.svg''),
      Fs (OpWriteFile ''/opt/mcp-servers/markmap_output/agent-001/renderFile_1739450400000.html''),
      Fs (OpWriteFile ''/opt/mcp-servers/markmap_output/agent-001/renderFile_1739450400000.md'')]"
  by (simp_all add: renderFile_run_simps)

section \<open>tools/customize: validation comes before delegation\<close>

lemma firstInvalidColor_None:
  "firstInvalidColor i cs = None \<longleftrightarrow> (\<forall>c\<in>set cs. hexColorRegex_test c)"
  by (induction cs arbitrary: i) auto

text \<open>
  Claim C6, as the code has it.  If a non-empty theme is supplied that is not one of
  default, dark, colorful, minimal, or if some entry of the supplied colour scheme does not
  match \<open>#\<close> followed by exactly six hexadecimal digits, \<open>customizeTool\<close> answers with a
  \<open>ValidationError\<close> and leaves the world as it was: no external call has been made, to the
  render delegate or to anything else.
\<close>

theorem customizeTool_validates_first:
  assumes "(\<exists>t. c_theme input = Some t \<and> t \<noteq> [] \<and> t \<notin> set validThemes) \<or>
           (\<exists>cs. c_color_scheme input = Some cs \<and> (\<exists>c\<in>set cs. \<not> hexColorRegex_test c))"
  shows "errorType (fst (customizeTool H T E input w)) = Some ''ValidationError'' \<and>
         snd (customizeTool H T E input w) = w"
proof -
  have col: "\<And>cs. \<exists>c\<in>set cs. \<not> hexColorRegex_test c \<Longrightarrow>
     \<exists>i c. firstInvalidColor 0 cs = Some (i, c)"
  proof -
    fix cs assume "\<exists>c\<in>set cs. \<not> hexColorRegex_test c"
    then have "firstInvalidColor 0 cs \<noteq> None" by (simp add: firstInvalidColor_None)
    then show "\<exists>i c. firstInvalidColor 0 cs = Some (i, c)"
      by (cases "firstInvalidColor 0 cs") auto
  qed
  from assms show ?thesis
  proof
    assume "\<exists>t. c_theme input = Some t \<and> t \<noteq> [] \<and> t \<notin> set validThemes"
    then show ?thesis
      by (auto simp: customizeTool_def theme_supplied_def falsy_def
               split: sum.splits option.splits)
  next
    assume "\<exists>cs. c_color_scheme input = Some cs \<and> (\<exists>c\<in>set cs. \<not> hexColorRegex_test c)"
    then obtain cs i c where
      "c_color_scheme input = Some cs" "firstInvalidColor 0 cs = Some (i, c)"
      using col by blast
    then show ?thesis
      by (auto simp: customizeTool_def split: sum.splits)
  qed
qed

theorem customizeTool_validates_first_witness:
  "errorType (fst (customizeTool (example_handler 3 2) example_template example_env
      (example_customize_input\<lparr>c_theme := Some ''neon''\<rparr>) empty_world)) =
     Some ''ValidationError'' \<and>
   calls (snd (customizeTool (example_handler 3 2) example_template example_env
      (example_customize_input\<lparr>c_theme := Some ''neon''\<rparr>) empty_world)) = [] \<and>
   errorType (fst (customizeTool (example_handler 3 2) example_template example_env
      (example_customize_input\<lparr>c_color_scheme := Some [''#FF6B6B'', ''red'']\<rparr>) empty_world)) =
     Some ''ValidationError'' \<and>
   calls (snd (customizeTool (example_handler 3 2) example_template example_env
      (example_customize_input\<lparr>c_color_scheme := Some [''#FF6B6B'', ''red'']\<rparr>) empty_world)) = [] \<and>
   errorType (fst (customizeTool (example_handler 3 2) example_template example_env
      (example_customize_input\<lparr>c_color_scheme := Some [''#ZZZZZZ'']\<rparr>) empty_world)) =
     Some ''ValidationError'' \<and>
   calls (snd (customizeTool (example_handler 3 2) example_template example_env
      (example_customize_input\<lparr>c_color_scheme := Some [''#ZZZZZZ'']\<rparr>) empty_world)) = []"
proof -
  have a: "''neon'' \<noteq> [] \<and> ''neon'' \<notin> set validThemes" by (simp add: validThemes_def)
  have b: "\<not> hexColorRegex_test ''red''" "\<not> hexColorRegex_test ''#ZZZZZZ''"
    by (simp_all add: hexColorRegex_test_def is_hex_digit_def)
  have e: "calls empty_world = []" by (simp add: empty_world_def)
  show ?thesis
    using customizeTool_validates_first[of "example_customize_input\<lparr>c_theme := Some ''neon''\<rparr>"
        "example_handler 3 2" example_template example_env empty_world]
      customizeTool_validates_first[of
        "example_customize_input\<lparr>c_color_scheme := Some [''#FF6B6B'', ''red'']\<rparr>"
        "example_handler 3 2" example_template example_env empty_world]
      customizeTool_validates_first[of
        "example_customize_input\<lparr>c_color_scheme := Some [''#ZZZZZZ'']\<rparr>"
        "example_handler 3 2" example_template example_env empty_world]
      a b e
    by simp
qed

text \<open>
  Claim C6, as stated, fails for the empty string: it is not one of the four themes, yet the
  guard \<open>input.theme && ...\<close> takes it for an absent theme, the default theme is applied and
  the delegate is called.
\<close>

theorem customizeTool_empty_theme_counterexample:
  "[] \<notin> set validThemes \<and>
   errorType (fst (customizeTool (example_handler 3 2) example_template example_env
      (example_customize_input\<lparr>c_theme := Some []\<rparr>) empty_world)) = None \<and>
   calls (snd (customizeTool (example_handler 3 2) example_template example_env
      (example_customize_input\<lparr>c_theme := Some []\<rparr>) empty_world)) =
     [ApplyCustomization ''# A'' ''default'', ParseMarkdown ''# A'', GetColorScheme ''default'',
      Fs (OpMkdir ''/opt/mcp-servers/markmap_output/agent-001''),
      Fs (OpOpen ''/opt/mcp-servers/markmap_output/agent-001/customize_1739450400000.svg''),
      Fs (OpWrite ''/opt/mcp-servers/markmap_output/agent-001/customize_1739450400000.svg''),
      Fs (OpFsync ''/opt/mcp-servers/markmap_output/agent-001/customize_1739450400000.svg''),
      Fs (OpClose ''/opt/mcp-servers/markmap_output/agent-001/customize_1739450400000.svg''),
      Fs (OpOpen ''/opt/mcp-servers/markmap_output/agent-001/customize_1739450400000.html''),
      Fs (OpWrite ''/opt/mcp-servers/markmap_output/agent-001/customize_1739450400000.html''),
      Fs (OpFsync ''/opt/mcp-servers/markmap_output/agent-001/customize_1739450400000.html''),
      Fs (OpClose ''/opt/mcp-servers/markmap_output/agent-001/customize_1739450400000.html''),
      Fs (OpOpen ''/opt/mcp-servers/markmap_output/agent-001/customize_1739450400000.md''),
      Fs (OpWrite ''/opt/mcp-servers/markmap_output/agent-001/customize_1739450400000.md''),
      Fs (OpFsync ''/opt/mcp-servers/markmap_output/agent-001/customize_1739450400000.md''),
      Fs (OpClose ''/opt/mcp-servers/markmap_output/agent-001/customize_1739450400000.md'')]"
  by (simp add: customize_run_simps env_fields now_example)

section \<open>tools/fromOutline: validation comes before compilation\<close>

lemma firstInvalidItem_None:
  "firstInvalidItem i items = None \<longleftrightarrow>
   (\<forall>item\<in>set items. \<not> item_text_empty item \<and> \<not> item_level_invalid item)"
  by (induction items arbitrary: i) auto

lemma fromOutline_body_compiles_first:
  "\<exists>rest. calls (snd (fromOutline_body H T E input w)) =
           calls w @ OutlineToMarkdown (fo_outline_items input) # rest"
  by (auto simp: fromOutline_body_def saveOutputs_legacy_def ensureAgentDir_def io_defs Let_def
           split: sum.splits prod.splits)

text \<open>
  Claim C7, as the code has it.  If some item has empty or white-space-only text, or a level
  below 1 or above 6, \<open>fromOutlineTool\<close> answers with a \<open>ValidationError\<close> and leaves the
  world as it was, so nothing has been compiled.  If the identifier is valid, the sequence is
  not empty and every item has non-blank text and a level from 1 to 6, validation passes and
  the first thing the tool does is to compile the items with \<open>outlineToMarkdown\<close>.
\<close>

theorem fromOutlineTool_validates_first:
  "((\<exists>item\<in>set (fo_outline_items input).
        trim (item_text item) = [] \<or> item_level item < 1 \<or> 6 < item_level item) \<longrightarrow>
      errorType (fst (fromOutlineTool H T E input w)) = Some ''ValidationError'' \<and>
      snd (fromOutlineTool H T E input w) = w) \<and>
   ((\<exists>s. sanitizeAgentId (fo_agent_id input) = Inr s) \<and> fo_outline_items input \<noteq> [] \<and>
    (\<forall>item\<in>set (fo_outline_items input).
        trim (item_text item) \<noteq> [] \<and> 1 \<le> item_level item \<and> item_level item \<le> 6) \<longrightarrow>
      (\<exists>rest. calls (snd (fromOutlineTool H T E input w)) =
              calls w @ OutlineToMarkdown (fo_outline_items input) # rest))"
proof (rule conjI; rule impI)
  assume bad: "\<exists>item\<in>set (fo_outline_items input).
        trim (item_text item) = [] \<or> item_level item < 1 \<or> 6 < item_level item"
  then have "\<exists>item\<in>set (fo_outline_items input).
        item_text_empty item \<or> item_level_invalid item"
    by (auto simp: item_text_empty_def item_level_invalid_def)
  then have "firstInvalidItem 0 (fo_outline_items input) \<noteq> None"
    by (auto simp: firstInvalidItem_None)
  then obtain msg where m: "firstInvalidItem 0 (fo_outline_items input) = Some msg"
    by (cases "firstInvalidItem 0 (fo_outline_items input)") auto
  show "errorType (fst (fromOutlineTool H T E input w)) = Some ''ValidationError'' \<and>
        snd (fromOutlineTool H T E input w) = w"
    using m by (simp add: fromOutlineTool_def split: sum.splits)
next
  assume good: "(\<exists>s. sanitizeAgentId (fo_agent_id input) = Inr s) \<and>
    fo_outline_items input \<noteq> [] \<and>
    (\<forall>item\<in>set (fo_outline_items input).
        trim (item_text item) \<noteq> [] \<and> 1 \<le> item_level item \<and> item_level item \<le> 6)"
  then have "\<forall>item\<in>set (fo_outline_items input).
        \<not> item_text_empty item \<and> \<not> item_level_invalid item"
    by (auto simp: item_text_empty_def item_level_invalid_def falsy_def trim_def)
  then have n: "firstInvalidItem 0 (fo_outline_items input) = None"
    by (simp add: firstInvalidItem_None)
  from good obtain s where s: "sanitizeAgentId (fo_agent_id input) = Inr s" by blast
  have "fromOutlineTool H T E input w = catch_all (fromOutline_body H T E input) w"
    using good n s by (simp add: fromOutlineTool_def)
  moreover have "snd (catch_all (fromOutline_body H T E input) w) =
                 snd (fromOutline_body H T E input w)"
    by (simp add: catch_all_def split: prod.splits sum.splits)
  ultimately show "\<exists>rest. calls (snd (fromOutlineTool H T E input w)) =
              calls w @ OutlineToMarkdown (fo_outline_items input) # rest"
    using fromOutline_body_compiles_first[of H T E input w] by simp
qed

theorem fromOutlineTool_validates_first_witness:
  "errorType (fst (fromOutlineTool (example_handler 3 2) example_template example_env
      (example_outline_input\<lparr>fo_outline_items :=
          [\<lparr>item_text = ''AI'', item_level = 1\<rparr>, \<lparr>item_text = ''  '', item_level = 2\<rparr>]\<rparr>)
      empty_world)) = Some ''ValidationError'' \<and>
   snd (fromOutlineTool (example_handler 3 2) example_template example_env
      (example_outline_input\<lparr>fo_outline_items :=
          [\<lparr>item_text = ''AI'', item_level = 1\<rparr>, \<lparr>item_text = ''  '', item_level = 2\<rparr>]\<rparr>)
      empty_world) = empty_world \<and>
   errorType (fst (fromOutlineTool (example_handler 3 2) example_template example_env
      (example_outline_input\<lparr>fo_outline_items := [\<lparr>item_text = ''AI'', item_level = 7\<rparr>]\<rparr>)
      empty_world)) = Some ''ValidationError'' \<and>
   (\<exists>rest. calls (snd (fromOutlineTool (example_handler 3 2) example_template example_env
                example_outline_input empty_world)) =
            OutlineToMarkdown [\<lparr>item_text = ''AI'', item_level = 1\<rparr>,
                               \<lparr>item_text = ''ML'', item_level = 2\<rparr>,
                               \<lparr>item_text = ''NLP'', item_level = 2\<rparr>] # rest)"
proof -
  have t: "trim ''  '' = []" "trim ''AI'' \<noteq> []" "trim ''ML'' \<noteq> []" "trim ''NLP'' \<noteq> []"
    by (simp_all add: trim_def is_js_space_def)
  have e: "calls empty_world = []" by (simp add: empty_world_def)
  have a: "fo_agent_id example_outline_input = ''agent-001''"
    by (simp add: example_outline_input_def)
  have i: "fo_outline_items example_outline_input =
      [\<lparr>item_text = ''AI'', item_level = 1\<rparr>, \<lparr>item_text = ''ML'', item_level = 2\<rparr>,
       \<lparr>item_text = ''NLP'', item_level = 2\<rparr>]"
    by (simp add: example_outline_input_def)
  show ?thesis
    using fromOutlineTool_validates_first[of "example_outline_input\<lparr>fo_outline_items :=
          [\<lparr>item_text = ''AI'', item_level = 1\<rparr>, \<lparr>item_text = ''  '', item_level = 2\<rparr>]\<rparr>"
          "example_handler 3 2" example_template example_env empty_world]
      fromOutlineTool_validates_first[of "example_outline_input\<lparr>fo_outline_items :=
          [\<lparr>item_text = ''AI'', item_level = 7\<rparr>]\<rparr>"
          "example_handler 3 2" example_template example_env empty_world]
      fromOutlineTool_validates_first[of example_outline_input
          "example_handler 3 2" example_template example_env empty_world]
      t e a i sanitize_agent_001
    by simp
qed

text \<open>
  Claim C7, as stated, fails for the empty sequence: every one of its items satisfies both
  invariants, yet the tool rejects it with a \<open>ValidationError\<close> and compiles nothing.
\<close>

theorem fromOutlineTool_empty_counterexample:
  "sanitizeAgentId (fo_agent_id (example_outline_input\<lparr>fo_outline_items := []\<rparr>)) =
     Inr ''agent-001'' \<and>
   fromOutlineTool (example_handler 3 2) example_template example_env
      (example_outline_input\<lparr>fo_outline_items := []\<rparr>) empty_world =
     (ToolError ''Error: Outline items cannot be empty'' ''ValidationError'', empty_world)"
  by (simp add: fromOutlineTool_def example_outline_input_def sanitize_agent_001)


section \<open>tools/renderFile: \<open>save_output\<close> without an output path\<close>

lemma legacy_save_skipped:
  "\<not> output_path_given input \<Longrightarrow> legacy_save E input svg_content w = (Inr None, w)"
  by (simp add: legacy_save_def)

lemma renderFile_body_cong:
  assumes "\<not> output_path_given i1" "\<not> output_path_given i2"
    "rf_agent_id i1 = rf_agent_id i2" "rf_file_path i1 = rf_file_path i2"
    "rf_options i1 = rf_options i2"
  shows "renderFile_body H T E i1 doc n = renderFile_body H T E i2 doc n"
  using assms by (simp add: renderFile_body_def legacy_save_skipped)

lemma renderFile_body_saved_path:
  assumes "\<not> output_path_given input"
      and "renderFile_body H T E input doc n w = (Inr (ToolResponse msg out), w')"
  shows "saved_path out = None"
  using assms
  by (auto simp: renderFile_body_def legacy_save_skipped bind_io_def return_io_def Let_def
           split: prod.splits sum.splits)

lemma structuredContent_Some:
  "structuredContent r = Some out \<Longrightarrow> \<exists>msg. r = ToolResponse msg out"
  by (cases r) auto

lemma errorType_None:
  "errorType r = None \<Longrightarrow> \<exists>out. structuredContent r = Some out"
  by (cases r) auto

lemma catch_all_response:
  "fst (catch_all body w) = ToolResponse msg out \<Longrightarrow>
   \<exists>w'. body w = (Inr (ToolResponse msg out), w')"
  by (auto simp: catch_all_def split: prod.splits sum.splits)

lemma renderFileTool_response:
  assumes "fst (renderFileTool H T E input w) = ToolResponse msg out"
  shows "\<exists>doc n w1 w'. renderFile_body H T E input doc n w1 = (Inr (ToolResponse msg out), w')"
proof (cases "sanitizeAgentId (rf_agent_id input)")
  case (Inl e)
  with assms show ?thesis by (simp add: renderFileTool_def)
next
  case (Inr s)
  obtain res w1 where r:
    "bind_io (fs_readFile E (rf_file_path input)) (\<lambda>markdown_content.
       bind_io (fs_stat E (rf_file_path input)) (\<lambda>fileSize.
       return_io (markdown_content, fileSize))) w = (res, w1)"
    by (cases "bind_io (fs_readFile E (rf_file_path input)) (\<lambda>markdown_content.
       bind_io (fs_stat E (rf_file_path input)) (\<lambda>fileSize.
       return_io (markdown_content, fileSize))) w")
  show ?thesis
  proof (cases res)
    case (Inl e)
    with assms Inr r show ?thesis
      by (simp add: renderFileTool_def Let_def split: if_splits)
  next
    case (Inr p)
    obtain doc n where p: "p = (doc, n)" by (cases p)
    from assms \<open>sanitizeAgentId (rf_agent_id input) = Inr s\<close> r Inr p
    have "fst (catch_all (renderFile_body H T E input doc n) w1) = ToolResponse msg out"
      by (simp add: renderFileTool_def Let_def split: if_splits)
    then obtain w' where
      "renderFile_body H T E input doc n w1 = (Inr (ToolResponse msg out), w')"
      using catch_all_response[of "renderFile_body H T E input doc n" w1 msg out] by auto
    then show ?thesis by (intro exI)
  qed
qed

text \<open>
  Claim C10.  When \<open>save_output\<close> is true and \<open>output_path\<close> is absent or empty,
  \<open>renderFileTool\<close> does exactly what it does with \<open>save_output\<close> false, in its answer and
  in every effect on the world: no write to an explicit path is made, the call succeeds
  whenever the plain call succeeds (the files being saved to the agent's storage), and a
  successful answer has \<open>saved_path\<close> undefined.
\<close>

theorem renderFileTool_without_output_path:
  assumes "rf_save_output input"
      and "rf_output_path input = None \<or> rf_output_path input = Some []"
  shows "renderFileTool H T E input w =
           renderFileTool H T E (input\<lparr>rf_save_output := False\<rparr>) w \<and>
         (\<forall>out. structuredContent (fst (renderFileTool H T E input w)) = Some out \<longrightarrow>
                saved_path out = None)"
proof
  have n1: "\<not> output_path_given input"
    using assms by (auto simp: output_path_given_def falsy_def)
  have n2: "\<not> output_path_given (input\<lparr>rf_save_output := False\<rparr>)"
    by (simp add: output_path_given_def)
  have b: "\<And>doc n. renderFile_body H T E input doc n =
                    renderFile_body H T E (input\<lparr>rf_save_output := False\<rparr>) doc n"
    by (rule renderFile_body_cong[OF n1 n2]) simp_all
  show "renderFileTool H T E input w = renderFileTool H T E (input\<lparr>rf_save_output := False\<rparr>) w"
    by (simp add: renderFileTool_def b Let_def split: sum.splits prod.splits)
  show "\<forall>out. structuredContent (fst (renderFileTool H T E input w)) = Some out \<longrightarrow>
              saved_path out = None"
  proof (intro allI impI)
    fix out assume "structuredContent (fst (renderFileTool H T E input w)) = Some out"
    then obtain msg where "fst (renderFileTool H T E input w) = ToolResponse msg out"
      using structuredContent_Some[of "fst (renderFileTool H T E input w)" out] by auto
    then obtain doc n w1 w' where
      "renderFile_body H T E input doc n w1 = (Inr (ToolResponse msg out), w')"
      using renderFileTool_response[of H T E input w msg out] by auto
    then show "saved_path out = None"
      by (rule renderFile_body_saved_path[OF n1])
  qed
qed

theorem renderFileTool_without_output_path_witness:
  "renderFileTool (example_handler 3 2) example_template example_env
      example_renderFile_input example_world =
   renderFileTool (example_handler 3 2) example_template example_env
      (example_renderFile_input\<lparr>rf_save_output := False\<rparr>) example_world \<and>
   errorType (fst (renderFileTool (example_handler 3 2) example_template example_env
      example_renderFile_input example_world)) = None \<and>
   map_option saved_path (structuredContent (fst (renderFileTool (example_handler 3 2)
      example_template example_env example_renderFile_input example_world))) = Some None \<and>
   calls (snd (renderFileTool (example_handler 3 2) example_template example_env
      example_renderFile_input example_world)) =
     [Fs (OpReadFile ''notes.md''), Fs (OpStat ''notes.md''), ParseMarkdown ''# AI'',
      RenderToSVG ''# AI'', Fs (OpMkdir ''/opt/mcp-servers/markmap_output/agent-001''),
      Fs (OpWriteFile ''/opt/mcp-servers/markmap_output/agent-001/renderFile_1739450400000.svg''),
      Fs (OpWriteFile ''/opt/mcp-servers/markmap_output/agent-001/renderFile_1739450400000.html''),
      Fs (OpWriteFile ''/opt/mcp-servers/markmap_output/agent-001/renderFile_1739450400000.md'')]"
proof -
  have h: "rf_save_output example_renderFile_input"
          "rf_output_path example_renderFile_input = None \<or>
           rf_output_path example_renderFile_input = Some []"
    by (simp_all add: example_renderFile_input_def)
  note t = renderFileTool_without_output_path[OF h, of "example_handler 3 2" example_template
      example_env example_world]
  note r = renderFileTool_example_run[of 3 2]
  obtain out where o: "structuredContent (fst (renderFileTool (example_handler 3 2)
      example_template example_env example_renderFile_input example_world)) = Some out"
    using errorType_None[OF r(1)] by auto
  with t have "saved_path out = None" by simp
  with o t r show ?thesis by simp
qed

section \<open>The Artifact Writer: durability\<close>

lemma writeFileSync_durable:
  assumes "writeFileSync E p c w = (Inr u, w')"
  shows "path_resolve (cwd E) p \<in> durable w' \<and> files w' (path_resolve (cwd E) p) = Some c \<and>
         durable w - {path_resolve (cwd E) p} \<subseteq> durable w' \<and>
         (\<forall>q. q \<noteq> path_resolve (cwd E) p \<longrightarrow> files w' q = files w q)"
  using assms
  by (auto simp: writeFileSync_def io_defs Let_def split: if_splits)

text \<open>
  The copy of lib/storage that tools/customize imports does what the specification asks:
  when \<open>saveOutputs\<close> or \<open>saveStructureOutputs\<close> returns, every artifact has been flushed.
\<close>

lemma saveOutputs_durable:
  assumes "saveOutputs T E agentId toolName svgContent markdownContent w = (Inr sf, w')"
  shows "path_resolve (cwd E) (svg sf) \<in> durable w' \<and>
         path_resolve (cwd E) (html sf) \<in> durable w' \<and>
         path_resolve (cwd E) (md sf) \<in> durable w' \<and>
         files w' (path_resolve (cwd E) (md sf)) = Some markdownContent"
proof -
  obtain s where s: "sanitizeAgentId agentId = Inr s"
    using assms
    by (cases "sanitizeAgentId agentId")
       (auto simp: saveOutputs_def ensureAgentDir_def bind_io_def)
  define dir where "dir = path_join (MARKMAP_STORAGE_ROOT E) s"
  define base where "base = toolName @ ''_'' @ show_nat (now E)"
  define p1 where "p1 = path_join dir (base @ ''.svg'')"
  define p2 where "p2 = path_join dir (base @ ''.html'')"
  define p3 where "p3 = path_join dir (base @ ''.md'')"
  obtain r0 w0 where m: "fs_mkdir E dir w = (r0, w0)" by (cases "fs_mkdir E dir w")
  obtain r1 w1 where a: "writeFileSync E p1 svgContent w0 = (r1, w1)"
    by (cases "writeFileSync E p1 svgContent w0")
  obtain r2 w2 where b: "writeFileSync E p2
       (generateHtml T markdownContent (title_of T toolName (now E))) w1 = (r2, w2)"
    by (cases "writeFileSync E p2
       (generateHtml T markdownContent (title_of T toolName (now E))) w1")
  obtain r3 w3 where c: "writeFileSync E p3 markdownContent w2 = (r3, w3)"
    by (cases "writeFileSync E p3 markdownContent w2")
  from assms s m a b c
  have ok: "r0 = Inr () \<and> r1 = Inr () \<and> r2 = Inr () \<and> r3 = Inr () \<and> w' = w3 \<and>
            sf = \<lparr>svg = p1, html = p2, md = p3\<rparr>"
    by (auto simp: saveOutputs_def ensureAgentDir_def bind_io_def return_io_def Let_def
          dir_def base_def p1_def p2_def p3_def split: sum.splits)
  have d1: "path_resolve (cwd E) p1 \<in> durable w1"
    using writeFileSync_durable[of E p1 svgContent w0 "()" w1] a ok by simp
  have d2: "path_resolve (cwd E) p2 \<in> durable w2"
           "durable w1 - {path_resolve (cwd E) p2} \<subseteq> durable w2"
    using writeFileSync_durable[of E p2
            "generateHtml T markdownContent (title_of T toolName (now E))" w1 "()" w2] b ok
    by simp_all
  have d3: "path_resolve (cwd E) p3 \<in> durable w3"
           "durable w2 - {path_resolve (cwd E) p3} \<subseteq> durable w3"
           "files w3 (path_resolve (cwd E) p3) = Some markdownContent"
    using writeFileSync_durable[of E p3 markdownContent w2 "()" w3] c ok by simp_all
  have e1: "path_resolve (cwd E) p1 \<in> durable w2" using d1 d2 by auto
  have e2: "path_resolve (cwd E) p1 \<in> durable w3" using e1 d3 by auto
  have e3: "path_resolve (cwd E) p2 \<in> durable w3" using d2 d3 by auto
  from ok d3 e2 e3 show ?thesis by simp
qed

lemma saveStructureOutputs_durable:
  assumes "saveStructureOutputs E agentId toolName markdownContent structureJson w = (Inr sf, w')"
  shows "path_resolve (cwd E) (structure_md sf) \<in> durable w' \<and>
         path_resolve (cwd E) (structure_json sf) \<in> durable w' \<and>
         files w' (path_resolve (cwd E) (structure_json sf)) = Some structureJson"
proof -
  obtain s where s: "sanitizeAgentId agentId = Inr s"
    using assms
    by (cases "sanitizeAgentId agentId")
       (auto simp: saveStructureOutputs_def ensureAgentDir_def bind_io_def)
  define dir where "dir = path_join (MARKMAP_STORAGE_ROOT E) s"
  define base where "base = toolName @ ''_'' @ show_nat (now E)"
  define p1 where "p1 = path_join dir (base @ ''.md'')"
  define p2 where "p2 = path_join dir (base @ ''.json'')"
  obtain r0 w0 where m: "fs_mkdir E dir w = (r0, w0)" by (cases "fs_mkdir E dir w")
  obtain r1 w1 where a: "writeFileSync E p1 markdownContent w0 = (r1, w1)"
    by (cases "writeFileSync E p1 markdownContent w0")
  obtain r2 w2 where b: "writeFileSync E p2 structureJson w1 = (r2, w2)"
    by (cases "writeFileSync E p2 structureJson w1")
  from assms s m a b
  have ok: "r0 = Inr () \<and> r1 = Inr () \<and> r2 = Inr () \<and> w' = w2 \<and>
            sf = \<lparr>structure_md = p1, structure_json = p2\<rparr>"
    by (auto simp: saveStructureOutputs_def ensureAgentDir_def bind_io_def return_io_def Let_def
          dir_def base_def p1_def p2_def split: sum.splits)
  have d1: "path_resolve (cwd E) p1 \<in> durable w1"
    using writeFileSync_durable[of E p1 markdownContent w0 "()" w1] a ok by simp
  have d2: "path_resolve (cwd E) p2 \<in> durable w2"
           "durable w1 - {path_resolve (cwd E) p2} \<subseteq> durable w2"
           "files w2 (path_resolve (cwd E) p2) = Some structureJson"
    using writeFileSync_durable[of E p2 structureJson w1 "()" w2] b ok by simp_all
  have e1: "path_resolve (cwd E) p1 \<in> durable w2" using d1 d2 by auto
  from ok d2 e1 show ?thesis by simp
qed

lemma saveStructureOutputs_legacy_not_durable:
  assumes "sanitizeAgentId agentId = Inr sanitized"
      and "\<forall>op. \<not> fs_fails E op"
  shows "\<exists>sf w'. saveStructureOutputs_legacy E agentId toolName markdownContent structureJson w =
                   (Inr sf, w') \<and>
           path_resolve (cwd E) (structure_md sf) \<notin> durable w' \<and>
           path_resolve (cwd E) (structure_json sf) \<notin> durable w' \<and>
           durable w' \<subseteq> durable w"
  using assms
  by (auto simp add: saveStructureOutputs_legacy_def ensureAgentDir_def io_defs Let_def)

text \<open>
  Claim C5 asks that every artifact be flushed to stable storage before the writer reports
  success.  The copy of \<open>saveOutputs\<close> that comes with tools/renderFile and tools/fromOutline
  does not: whenever the identifier is valid and no file-system call fails, it returns the
  three paths with the files written, none of the three is flushed, and nothing has become
  durable that was not durable before.
\<close>

theorem saveOutputs_legacy_not_durable:
  assumes "sanitizeAgentId agentId = Inr sanitized"
      and "\<forall>op. \<not> fs_fails E op"
  shows "\<exists>sf w'. saveOutputs_legacy T E agentId toolName svgContent markdownContent w =
                   (Inr sf, w') \<and>
           files w' (path_resolve (cwd E) (md sf)) = Some markdownContent \<and>
           path_resolve (cwd E) (svg sf) \<notin> durable w' \<and>
           path_resolve (cwd E) (html sf) \<notin> durable w' \<and>
           path_resolve (cwd E) (md sf) \<notin> durable w' \<and>
           durable w' \<subseteq> durable w"
  using assms
  by (auto simp add: saveOutputs_legacy_def ensureAgentDir_def io_defs Let_def)

theorem saveOutputs_legacy_not_durable_witness:
  "\<not> isl (fst (saveOutputs_legacy example_template example_env ''agent-001'' ''renderFile''
             ''<svg></svg>'' ''# AI'' empty_world)) \<and>
   durable (snd (saveOutputs_legacy example_template example_env ''agent-001'' ''renderFile''
             ''<svg></svg>'' ''# AI'' empty_world)) = {}"
proof -
  have h: "\<forall>op. \<not> fs_fails example_env op" by (simp add: example_env_def)
  have e: "durable empty_world = {}" by (simp add: empty_world_def)
  from saveOutputs_legacy_not_durable[OF sanitize_agent_001 h, of example_template
      "''renderFile''" "''<svg></svg>''" "''# AI''" empty_world] e
  show ?thesis by auto
qed

section \<open>The error kinds the tools report\<close>

lemma customize_body_response:
  "customize_body H T E input w = (Inr r, w') \<Longrightarrow> \<exists>msg out. r = ToolResponse msg out"
  by (auto simp: customize_body_def bind_io_def return_io_def Let_def
           split: prod.splits sum.splits option.splits)

lemma customizeTool_error_types:
  "errorType (fst (customizeTool H T E input w)) \<in>
     {None, Some ''ValidationError'', Some ''RenderError''}"
proof -
  obtain r w' where b: "customize_body H T E input w = (r, w')"
    by (cases "customize_body H T E input w")
  show ?thesis
  proof (cases r)
    case (Inl e)
    with b show ?thesis
      by (simp add: customizeTool_def catch_all_def split: sum.splits option.splits prod.splits)
  next
    case (Inr t)
    with b obtain msg out where "t = ToolResponse msg out"
      using customize_body_response[of H T E input w t w'] by auto
    with b Inr show ?thesis
      by (simp add: customizeTool_def catch_all_def split: sum.splits option.splits prod.splits)
  qed
qed

lemma legacy_save_error_types:
  "legacy_save E input svgc w = (Inl t, w') \<Longrightarrow>
     errorType t \<in> {Some ''ValidationError'', Some ''FileSystemError''}"
  by (auto simp: legacy_save_def Let_def split: if_splits prod.splits sum.splits)

lemma renderFile_body_error_types:
  assumes "renderFile_body H T E input doc n w = (Inr t, w')"
  shows "errorType t \<in> {None, Some ''ValidationError'', Some ''FileSystemError''}"
  using assms legacy_save_error_types[of E input]
  by (fastforce simp: renderFile_body_def bind_io_def return_io_def call_ext_def lift_io_def
           Let_def split: prod.splits sum.splits)

lemma renderFileTool_error_types:
  "errorType (fst (renderFileTool H T E input w)) \<in>
     {None, Some ''ValidationError'', Some ''FileSystemError'', Some ''RenderError''}"
proof (cases "sanitizeAgentId (rf_agent_id input)")
  case (Inl e)
  then show ?thesis by (simp add: renderFileTool_def)
next
  case (Inr s)
  obtain res w1 where r:
    "bind_io (fs_readFile E (rf_file_path input)) (\<lambda>markdown_content.
       bind_io (fs_stat E (rf_file_path input)) (\<lambda>fileSize.
       return_io (markdown_content, fileSize))) w = (res, w1)"
    by (cases "bind_io (fs_readFile E (rf_file_path input)) (\<lambda>markdown_content.
       bind_io (fs_stat E (rf_file_path input)) (\<lambda>fileSize.
       return_io (markdown_content, fileSize))) w")
  show ?thesis
  proof (cases res)
    case (Inl e)
    with Inr r show ?thesis by (simp add: renderFileTool_def Let_def)
  next
    case (Inr p)
    obtain doc n where p: "p = (doc, n)" by (cases p)
    obtain b w2 where b: "renderFile_body H T E input doc n w1 = (b, w2)"
      by (cases "renderFile_body H T E input doc n w1")
    have "errorType (fst (catch_all (renderFile_body H T E input doc n) w1)) \<in>
            {None, Some ''ValidationError'', Some ''FileSystemError'', Some ''RenderError''}"
      using b renderFile_body_error_types[of H T E input doc n w1 _ w2]
      by (cases b) (auto simp: catch_all_def)
    with \<open>sanitizeAgentId (rf_agent_id input) = Inr s\<close> r Inr p show ?thesis
      by (simp add: renderFileTool_def Let_def)
  qed
qed

text \<open>
  Whatever the parser and the renderer do, neither tool ever answers with the error type
  \<open>ResourceLimitError\<close>, and \<open>customizeTool\<close> never answers with \<open>FileSystemError\<close>.
\<close>

lemma tools_never_ResourceLimitError:
  "errorType (fst (renderFileTool H T E ri w)) \<noteq> Some ''ResourceLimitError''"
  "errorType (fst (customizeTool H' T E ci w)) \<noteq> Some ''ResourceLimitError''"
  using renderFileTool_error_types[of H T E ri w] customizeTool_error_types[of H' T E ci w]
  by auto

lemma customizeTool_never_FileSystemError:
  "errorType (fst (customizeTool H T E ci w)) \<noteq> Some ''FileSystemError''"
  using customizeTool_error_types[of H T E ci w] by auto

lemma customizeTool_succeeds_over_limit:
  "errorType (fst (customizeTool (example_handler 10001 21) example_template example_env
      example_customize_input empty_world)) = None \<and>
   map_option c_node_count (structuredContent (fst (customizeTool (example_handler 10001 21)
      example_template example_env example_customize_input empty_world))) = Some 10001"
  using customizeTool_example_run[of 10001 21] by simp

text \<open>
  Claim C4 asks for a \<open>ResourceLimitError\<close> when the parsed tree has more than 10,000 nodes
  or is deeper than 20.  The tools compute the node count and the depth and return them;
  they compare neither with a limit.  Whenever the input passes validation, the file can be
  read and is at most 5 MB, and the parser, the two counters and the renderer return,
  \<open>renderFileTool\<close> succeeds and reports the node count \<open>n\<close> and the depth \<open>d\<close> it was
  given, whatever \<open>n\<close> and \<open>d\<close> are: 10,001 nodes at depth 21 are answered like any other
  document.
\<close>

theorem renderFileTool_ignores_limits:
  assumes "sanitizeAgentId (rf_agent_id input) = Inr s"
      and "trim (rf_file_path input) \<noteq> []"
      and "toLowerCase (path_extname (rf_file_path input)) = ''.md'' \<or>
           toLowerCase (path_extname (rf_file_path input)) = ''.markdown''"
      and "validateFilePath E (rf_file_path input) (Some (rf_agent_id input))"
      and "\<not> output_path_given input"
      and "\<forall>op. \<not> fs_fails E op"
      and "files w (path_resolve (cwd E) (rf_file_path input)) = Some doc"
      and "byteLength doc \<le> 5 * 1024 * 1024"
      and "parseMarkdown H doc = Inr (tree, features)"
      and "countNodes H tree = Inr n"
      and "calculateDepth H tree = Inr d"
      and "renderToSVG H doc (rf_options input) = Inr svgc"
  shows "errorType (fst (renderFileTool H T E input w)) = None \<and>
         map_option rf_node_count (structuredContent (fst (renderFileTool H T E input w))) =
           Some n \<and>
         map_option rf_depth (structuredContent (fst (renderFileTool H T E input w))) = Some d"
proof -
  have f: "rf_file_path input \<noteq> []" using assms(2) by (auto simp: trim_def)
  show ?thesis
    using assms f
    by (auto simp: renderFileTool_def renderFile_body_def legacy_save_def catch_all_def
          saveOutputs_legacy_def ensureAgentDir_def io_defs Let_def falsy_def)
qed

theorem renderFileTool_ignores_limits_witness:
  "errorType (fst (renderFileTool (example_handler 10001 21) example_template example_env
      example_renderFile_input example_world)) = None \<and>
   map_option rf_node_count (structuredContent (fst (renderFileTool (example_handler 10001 21)
      example_template example_env example_renderFile_input example_world))) = Some 10001 \<and>
   map_option rf_depth (structuredContent (fst (renderFileTool (example_handler 10001 21)
      example_template example_env example_renderFile_input example_world))) = Some 21"
proof -
  have i: "rf_agent_id example_renderFile_input = ''agent-001''"
          "rf_file_path example_renderFile_input = ''notes.md''"
          "rf_options example_renderFile_input = None"
    by (simp_all add: example_renderFile_input_def)
  have h1: "sanitizeAgentId (rf_agent_id example_renderFile_input) = Inr ''agent-001''"
    by (simp add: i sanitize_agent_001)
  have h2: "trim (rf_file_path example_renderFile_input) \<noteq> []"
    by (simp add: i notes_md)
  have h3: "toLowerCase (path_extname (rf_file_path example_renderFile_input)) = ''.md'' \<or>
            toLowerCase (path_extname (rf_file_path example_renderFile_input)) = ''.markdown''"
    by (simp add: i notes_md)
  have h4: "validateFilePath example_env (rf_file_path example_renderFile_input)
              (Some (rf_agent_id example_renderFile_input))"
    by (simp add: i validate_notes)
  have h5: "\<not> output_path_given example_renderFile_input"
    by (simp add: output_path_given_def example_renderFile_input_def)
  have h6: "\<forall>op. \<not> fs_fails example_env op" by (simp add: example_env_def)
  have h7: "files example_world
              (path_resolve (cwd example_env) (rf_file_path example_renderFile_input)) =
            Some ''# AI''"
    by (simp add: i env_fields notes_md example_world_def)
  have h8: "byteLength ''# AI'' \<le> 5 * 1024 * 1024" by (simp add: notes_md)
  have h9: "parseMarkdown (example_handler 10001 21) ''# AI'' = Inr ((10001, 21), None)"
    by (simp add: example_handler_def)
  have h10: "countNodes (example_handler 10001 21) (10001, 21) = Inr 10001"
    by (simp add: example_handler_def)
  have h11: "calculateDepth (example_handler 10001 21) (10001, 21) = Inr 21"
    by (simp add: example_handler_def)
  have h12: "renderToSVG (example_handler 10001 21) ''# AI''
               (rf_options example_renderFile_input) = Inr ''<svg></svg>''"
    by (simp add: example_handler_def)
  show ?thesis
    by (rule renderFileTool_ignores_limits[OF h1 h2 h3 h4 h5 h6 h7 h8 h9 h10 h11 h12])
qed

text \<open>
  Claim C8 asks for a \<open>FileSystemError\<close> when writing the artifacts fails.  When opening the
  HTML artifact fails in \<open>customizeTool\<close>, after the SVG artifact has been written, the
  throw of \<open>saveOutputs\<close> reaches the outer \<open>catch\<close> and the answer carries \<open>RenderError\<close>;
  the SVG file stays on disk and the Markdown file is never written.
\<close>

theorem customizeTool_write_failure:
  "fst (customizeTool (example_handler 3 2) example_template failing_env
          example_customize_input empty_world) =
     ToolError ''Error: EIO: i/o error'' ''RenderError'' \<and>
   files (snd (customizeTool (example_handler 3 2) example_template failing_env
          example_customize_input empty_world))
     ''/opt/mcp-servers/markmap_output/agent-001/customize_1739450400000.svg'' =
     Some ''<svg></svg>'' \<and>
   files (snd (customizeTool (example_handler 3 2) example_template failing_env
          example_customize_input empty_world))
     ''/opt/mcp-servers/markmap_output/agent-001/customize_1739450400000.md'' = None"
  by (simp add: customize_run_simps failing_env_fields)

end
